theory Spec2Isabelle
  imports Main "HOL-Library.Log_Nat"
begin

section \<open>The room server of \<^verbatim>\<open>server.cjs\<close>\<close>

text \<open>
  The file \<^verbatim>\<open>server.cjs\<close> holds two versions of the server, one after the other. The
  model follows the second one (the "full drop-in replacement"), which looks a player up
  by the identifier of its socket and normalises the player data in \<^verbatim>\<open>addPlayer\<close>. The
  first version has the same handlers and differs in the lookup (by the name the client
  sent) and in storing the client's player data as it is.

  The server keeps one table \<^verbatim>\<open>rooms\<close> (a JavaScript \<^verbatim>\<open>Map\<close>, which iterates in insertion
  order) and reacts to seven events of a socket. A handler is modelled as a function from
  the table, the identifier of the socket and the payload to either a thrown
  \<^verbatim>\<open>TypeError\<close> or the new table with the list of the calls made on the socket library
  (\<^verbatim>\<open>emit\<close>, \<^verbatim>\<open>join\<close>), in the order of the source. Calls of \<^verbatim>\<open>console\<close> are left out.
\<close>

subsection \<open>Values sent by a client\<close>

text \<open>
  A payload is whatever the client sent. The model gives every payload and every field
  read by the server three shapes: absent (\<^verbatim>\<open>undefined\<close>), \<^verbatim>\<open>null\<close>, or a value of the
  shape the server expects. Reading a property of the first two throws a
  \<^verbatim>\<open>TypeError\<close>; both are falsy; only \<^verbatim>\<open>undefined\<close> triggers a default parameter.
\<close>

type_synonym socket_id = string
type_synonym room_id = string

datatype 'a js = Undefined | Null | Val 'a

subsection \<open>Numbers\<close>

text \<open>
  A JavaScript number is an IEEE 754 binary64 value: not-a-number, an infinity, the
  negative zero, or a finite value \<open>m * 2 ^ e\<close>, written \<open>Dyadic m e\<close>; the zero is
  \<open>Dyadic 0 0\<close>. A finite value that is not zero is kept with an odd \<open>m\<close>, so that every
  number has one representation, and it is a binary64 value when \<open>m\<close> has at most 53
  bits, \<open>e\<close> is at least \<open>-1074\<close> and the value is below \<open>2 ^ 1024\<close>.
\<close>

datatype number = NaN | PosInfinity | NegInfinity | NegZero | Dyadic int int

fun is_finite :: "number \<Rightarrow> bool" where
  "is_finite (Dyadic m e) = True"
| "is_finite NegZero = True"
| "is_finite x = False"

fun is_double :: "number \<Rightarrow> bool" where
  "is_double (Dyadic m e) =
     (if m = 0 then e = 0
      else odd m \<and> \<bar>m\<bar> < 2 ^ 53 \<and> - 1074 \<le> e \<and> e + bitlen \<bar>m\<bar> \<le> 1024)"
| "is_double x = True"

text \<open>The representation of \<open>m * 2 ^ e\<close> with an odd \<open>m\<close>.\<close>

function normal :: "int \<Rightarrow> int \<Rightarrow> number" where
  "normal m e =
     (if m = 0 then Dyadic 0 0
      else if even m then normal (m div 2) (e + 1)
      else Dyadic m e)"
  by pat_completeness auto
termination
  by (relation "measure (\<lambda>(m, e). nat \<bar>m\<bar>)") auto

declare normal.simps [simp del]

text \<open>The number that an integer literal denotes (when it is in the range of binary64).\<close>

definition js_integer :: "int \<Rightarrow> number" where
  "js_integer a = normal a 0"

text \<open>
  A finite value in units of \<open>2 ^ -1074\<close>, the smallest positive binary64 value: every
  finite binary64 value is an integer number of units, and the units of two values are
  subtracted exactly, as integers.
\<close>

fun units :: "number \<Rightarrow> int" where
  "units (Dyadic m e) = m * 2 ^ nat (e + 1074)"
| "units x = 0"

text \<open>
  Rounding to the nearest, ties to even. \<open>round_shift m k\<close> drops the \<open>k\<close> low bits of
  \<open>m\<close>. \<open>round64 m e\<close> rounds \<open>m * 2 ^ e\<close>, which is not zero, to binary64: the bits
  below the 53 leading ones, or below \<open>2 ^ -1074\<close>, are dropped, and a result of
  \<open>2 ^ 1024\<close> or more is an infinity.
\<close>

definition round_shift :: "int \<Rightarrow> nat \<Rightarrow> int" where
  "round_shift m k =
     (if k = 0 then m
      else
        (let q = m div 2 ^ k; r = m mod 2 ^ k; half = 2 ^ (k - 1)
         in if r < half then q
            else if half < r then q + 1
            else if even q then q else q + 1))"

definition round64 :: "int \<Rightarrow> int \<Rightarrow> number" where
  "round64 m e =
     (let E = e + bitlen \<bar>m\<bar> - 1;
          q = max (E - 52) (- 1074);
          m' = (if q \<le> e then m else round_shift m (nat (q - e)));
          e' = (if q \<le> e then e else q)
      in if m' = 0 then (if m < 0 then NegZero else Dyadic 0 0)
         else if 1024 \<le> e' + bitlen \<bar>m'\<bar> - 1
           then (if m < 0 then NegInfinity else PosInfinity)
         else normal m' e')"

text \<open>
  The operator \<^verbatim>\<open>-\<close> on two numbers: the exact difference, rounded. A difference that
  is zero is the positive zero, but for the negative zero minus the positive one.
\<close>

fun js_minus :: "number \<Rightarrow> number \<Rightarrow> number" where
  "js_minus NaN y = NaN"
| "js_minus x NaN = NaN"
| "js_minus PosInfinity PosInfinity = NaN"
| "js_minus NegInfinity NegInfinity = NaN"
| "js_minus PosInfinity y = PosInfinity"
| "js_minus NegInfinity y = NegInfinity"
| "js_minus x PosInfinity = NegInfinity"
| "js_minus x NegInfinity = PosInfinity"
| "js_minus NegZero NegZero = Dyadic 0 0"
| "js_minus NegZero (Dyadic m e) = (if m = 0 then NegZero else round64 (- m) e)"
| "js_minus (Dyadic m e) NegZero = (if m = 0 then Dyadic 0 0 else round64 m e)"
| "js_minus (Dyadic m1 e1) (Dyadic m2 e2) =
     (let e = min e1 e2;
          m = m1 * 2 ^ nat (e1 - e) - m2 * 2 ^ nat (e2 - e)
      in if m = 0 then Dyadic 0 0 else round64 m e)"

subsection \<open>Payloads\<close>

text \<open>
  The records of a position are written for any type \<open>'n\<close> of coordinates; the server
  works on them at the type \<open>number\<close>, and the model takes every coordinate of a
  position that is present to be a number.
\<close>

record 'n vec3 =
  coord_x :: 'n
  coord_y :: 'n
  coord_z :: 'n

record 'n quat =
  quat_x :: 'n
  quat_y :: 'n
  quat_z :: 'n
  quat_w :: 'n

text \<open>
  The player data of a client: the fields the server reads or overwrites (\<^verbatim>\<open>name\<close>,
  \<^verbatim>\<open>ready\<close>, \<^verbatim>\<open>basePosition\<close>) and the other fields, which it copies. The field
  \<^verbatim>\<open>ready\<close> is read through \<^verbatim>\<open>!!\<close>, so a value stands for its truthiness.
\<close>

record 'n clientData =
  client_name :: "string js"
  client_ready :: "bool js"
  client_basePosition :: "'n vec3 js"
  client_display :: "(string \<times> string) list"

definition empty_object :: "'n clientData" where
  "empty_object =
     \<lparr>client_name = Undefined, client_ready = Undefined,
      client_basePosition = Undefined, client_display = []\<rparr>"

fun truthy :: "bool js \<Rightarrow> bool" where
  "truthy (Val b) = b"
| "truthy Undefined = False"
| "truthy Null = False"

text \<open>A default parameter \<^verbatim>\<open>playerData = {}\<close>: the default replaces \<^verbatim>\<open>undefined\<close> only.\<close>

fun default_param :: "'n clientData js \<Rightarrow> 'n clientData js" where
  "default_param Undefined = Val empty_object"
| "default_param v = v"

record 'n blockData =
  block_id :: "string js"
  position :: "'n vec3 js"
  quaternion :: "'n quat js"

record 'n joinPayload =
  join_roomId :: "string js"
  join_playerData :: "'n clientData js"

record 'n basePayload =
  base_roomId :: "string js"
  base_position :: "'n vec3 js"

record readyPayload =
  ready_roomId :: "string js"

record 'n updatePayload =
  update_roomId :: "string js"
  update_blockData :: "'n blockData js"

record collapsePayload =
  collapse_roomId :: "string js"
  collapse_playerId :: "string js"

subsection \<open>The state: rooms and players\<close>

record 'n playerData =
  name :: socket_id
  ready :: bool
  basePosition :: "'n vec3 js"
  display :: "(string \<times> string) list"

text \<open>A player holds its socket; the model keeps the identifier of the socket.\<close>

record 'n player =
  socket :: socket_id
  playerData :: "'n playerData"

record 'n relativeChange =
  change_id :: "string js"
  relativePosition :: "'n vec3"
  change_quaternion :: "'n quat js"

record 'n room =
  roomId :: room_id
  players :: "'n player list"
  gameState :: "(string \<times> 'n relativeChange) list"

record 'n roomState =
  state_roomId :: room_id
  state_players :: "'n playerData list"
  state_gameState :: "(string \<times> 'n relativeChange) list"

text \<open>The table \<^verbatim>\<open>rooms\<close>, in insertion order.\<close>

type_synonym 'n rooms = "(room_id \<times> 'n room) list"

text \<open>
  \<^verbatim>\<open>Map.set\<close> replaces the value of a key in place and appends a new key;
  \<^verbatim>\<open>Map.delete\<close> removes the key; \<^verbatim>\<open>Map.get\<close> with a key that is not a string finds
  nothing, since every key of the table is a string.
\<close>

fun map_set :: "('k \<times> 'v) list \<Rightarrow> 'k \<Rightarrow> 'v \<Rightarrow> ('k \<times> 'v) list" where
  "map_set [] k v = [(k, v)]"
| "map_set ((k', v') # kvs) k v =
     (if k' = k then (k, v) # kvs else (k', v') # map_set kvs k v)"

fun map_delete :: "('k \<times> 'v) list \<Rightarrow> 'k \<Rightarrow> ('k \<times> 'v) list" where
  "map_delete [] k = []"
| "map_delete ((k', v') # kvs) k =
     (if k' = k then map_delete kvs k else (k', v') # map_delete kvs k)"

fun rooms_get :: "'n rooms \<Rightarrow> string js \<Rightarrow> (room_id \<times> 'n room) option" where
  "rooms_get rs (Val k) = (case map_of rs k of None \<Rightarrow> None | Some room \<Rightarrow> Some (k, room))"
| "rooms_get rs Undefined = None"
| "rooms_get rs Null = None"

text \<open>\<^verbatim>\<open>Array.prototype.findIndex\<close>, with \<open>None\<close> for \<open>-1\<close>, and \<^verbatim>\<open>splice(index, 1)\<close>.\<close>

fun findIndex :: "('a \<Rightarrow> bool) \<Rightarrow> 'a list \<Rightarrow> nat option" where
  "findIndex P [] = None"
| "findIndex P (x # xs) =
     (if P x then Some 0 else (case findIndex P xs of None \<Rightarrow> None | Some i \<Rightarrow> Some (Suc i)))"

definition splice1 :: "nat \<Rightarrow> 'a list \<Rightarrow> 'a list" where
  "splice1 i xs = take i xs @ drop (Suc i) xs"

subsection \<open>What a handler does on the socket library\<close>

datatype 'n message =
    RoomCreated room_id
  | RoomError string
  | JoinedRoom room_id "'n roomState"
  | PlayerJoined socket_id "'n clientData"
  | StartGame "(string \<times> 'n relativeChange) list"
  | TurnUpdate socket_id room_id
  | UpdateBlockMsg room_id "'n relativeChange"
  | GameResult string room_id "string js"
  | PlayerDisconnected socket_id

text \<open>
  \<open>Socket_emit\<close> is \<^verbatim>\<open>socket.emit\<close> (to the sender alone), \<open>Io_to r\<close> is
  \<^verbatim>\<open>io.to(r).emit\<close> (to every socket of the channel \<open>r\<close>; every socket is alone in the
  channel named by its identifier), \<open>Socket_to r\<close> is \<^verbatim>\<open>socket.to(r).emit\<close> (to the
  channel but the sender).
\<close>

datatype target = Socket_emit | Io_to "string js" | Socket_to room_id

datatype 'n effect = Emit target "'n message" | Join room_id

text \<open>A thrown \<^verbatim>\<open>TypeError\<close>, with what the handler had emitted before it.\<close>

datatype 'n error = TypeError "'n effect list"

type_synonym 'n result = "'n error + ('n rooms \<times> 'n effect list)"

subsection \<open>The class \<^verbatim>\<open>Room\<close>\<close>

definition Room :: "room_id \<Rightarrow> 'n room" where
  "Room rid = \<lparr>roomId = rid, players = [], gameState = []\<rparr>"

text \<open>
  \<^verbatim>\<open>addPlayer(socket, playerData = {})\<close> copies the client's data, sets \<^verbatim>\<open>name\<close> to the
  identifier of the socket and \<^verbatim>\<open>ready\<close> to \<^verbatim>\<open>!!playerData.ready\<close>, and pushes the player.
  Reading \<^verbatim>\<open>playerData.ready\<close> of \<^verbatim>\<open>null\<close> throws before anything is pushed.
\<close>

definition addPlayer :: "'n room \<Rightarrow> socket_id \<Rightarrow> 'n clientData js \<Rightarrow> 'n error + 'n room" where
  "addPlayer room sid pd =
     (case default_param pd of
        Val d \<Rightarrow>
          Inr (room\<lparr>players := players room @
                 [\<lparr>socket = sid,
                   playerData = \<lparr>name = sid, ready = truthy (client_ready d),
                                 basePosition = client_basePosition d,
                                 display = client_display d\<rparr>\<rparr>]\<rparr>)
      | _ \<Rightarrow> Inl (TypeError []))"

definition isFull :: "'n room \<Rightarrow> bool" where
  "isFull room = (length (players room) \<ge> 2)"

definition getState :: "'n room \<Rightarrow> 'n roomState" where
  "getState room =
     \<lparr>state_roomId = roomId room,
      state_players = map playerData (players room),
      state_gameState = gameState room\<rparr>"

text \<open>
  \<^verbatim>\<open>updateGameState(blockData)\<close> stores the block under its \<^verbatim>\<open>id\<close>; a property key
  that is not a string is converted to one. No handler calls this method. The model
  keeps the properties of \<^verbatim>\<open>gameState\<close> in the order of their insertion, as the object
  does for the keys that are not written as an integer; it does not model such keys,
  which the object lists first, nor the key \<^verbatim>\<open>__proto__\<close>, which stores no property.
\<close>

fun property_key :: "string js \<Rightarrow> string" where
  "property_key (Val s) = s"
| "property_key Undefined = ''undefined''"
| "property_key Null = ''null''"

definition updateGameState :: "'n room \<Rightarrow> 'n relativeChange \<Rightarrow> 'n room" where
  "updateGameState room blockData =
     room\<lparr>gameState := map_set (gameState room) (property_key (change_id blockData)) blockData\<rparr>"

subsection \<open>The handlers\<close>

text \<open>
  \<^verbatim>\<open>createRoom\<close>. The identifier is \<^verbatim>\<open>Math.random().toString(36).substring(7)\<close>; the
  model takes the generated string as the argument \<open>gen\<close>.
\<close>

definition createRoom :: "room_id \<Rightarrow> 'n rooms \<Rightarrow> socket_id \<Rightarrow> 'n clientData js \<Rightarrow> 'n result" where
  "createRoom gen rs sid pd =
     (let playerData = default_param pd;
          rid = gen;
          room = Room rid
      in case addPlayer room sid playerData of
           Inl e \<Rightarrow> Inl e
         | Inr room' \<Rightarrow>
             Inr (map_set rs rid room', [Join rid, Emit Socket_emit (RoomCreated rid)]))"

definition joinRoom :: "'n rooms \<Rightarrow> socket_id \<Rightarrow> 'n joinPayload js \<Rightarrow> 'n result" where
  "joinRoom rs sid payload =
     (case payload of
        Val p \<Rightarrow>
          (let playerData = default_param (join_playerData p) in
           case rooms_get rs (join_roomId p) of
             None \<Rightarrow> Inr (rs, [Emit Socket_emit (RoomError ''Room not found'')])
           | Some (rid, room) \<Rightarrow>
               if isFull room then Inr (rs, [Emit Socket_emit (RoomError ''Room is full'')])
               else
                 (case addPlayer room sid playerData of
                    Inl e \<Rightarrow> Inl e
                  | Inr room' \<Rightarrow>
                      Inr (map_set rs rid room',
                           [Join rid,
                            Emit Socket_emit (JoinedRoom rid (getState room')),
                            Emit (Socket_to rid)
                              (PlayerJoined sid
                                 (case playerData of
                                    Val d \<Rightarrow> d\<lparr>client_name := Val sid\<rparr>
                                  | _ \<Rightarrow> empty_object\<lparr>client_name := Val sid\<rparr>))])))
      | _ \<Rightarrow> Inl (TypeError []))"

definition set_base_position :: "'n rooms \<Rightarrow> socket_id \<Rightarrow> 'n basePayload js \<Rightarrow> 'n result" where
  "set_base_position rs sid payload =
     (case payload of
        Val p \<Rightarrow>
          (case rooms_get rs (base_roomId p) of
             None \<Rightarrow> Inr (rs, [Emit Socket_emit (RoomError ''Room not found'')])
           | Some (rid, room) \<Rightarrow>
               (case findIndex (\<lambda>q. socket q = sid) (players room) of
                  Some i \<Rightarrow>
                    Inr (map_set rs rid
                           (room\<lparr>players := (players room)
                              [i := (players room ! i)
                                 \<lparr>playerData := (playerData (players room ! i))
                                    \<lparr>basePosition := base_position p\<rparr>\<rparr>]\<rparr>), [])
                | None \<Rightarrow> Inr (rs, [])))
      | _ \<Rightarrow> Inl (TypeError []))"

definition player_ready :: "'n rooms \<Rightarrow> socket_id \<Rightarrow> readyPayload js \<Rightarrow> 'n result" where
  "player_ready rs sid payload =
     (case payload of
        Val p \<Rightarrow>
          (case rooms_get rs (ready_roomId p) of
             None \<Rightarrow> Inr (rs, [Emit Socket_emit (RoomError ''Room not found'')])
           | Some (rid, room) \<Rightarrow>
               (let room' =
                      (case findIndex (\<lambda>q. socket q = sid) (players room) of
                         Some i \<Rightarrow>
                           room\<lparr>players := (players room)
                             [i := (players room ! i)
                                \<lparr>playerData := (playerData (players room ! i))\<lparr>ready := True\<rparr>\<rparr>]\<rparr>
                       | None \<Rightarrow> room);
                    rs' = map_set rs rid room';
                    allReady = list_all (\<lambda>q. ready (playerData q)) (players room')
                in if allReady then
                     (case players room' of
                        [] \<Rightarrow>
                          Inl (TypeError
                                 [Emit (Io_to (Val rid)) (StartGame (state_gameState (getState room')))])
                      | first # _ \<Rightarrow>
                          Inr (rs',
                               [Emit (Io_to (Val rid)) (StartGame (state_gameState (getState room'))),
                                Emit (Io_to (Val rid)) (TurnUpdate (name (playerData first)) rid)]))
                   else Inr (rs', [])))
      | _ \<Rightarrow> Inl (TypeError []))"

definition update_block :: "number rooms \<Rightarrow> socket_id \<Rightarrow> number updatePayload js \<Rightarrow> number result" where
  "update_block rs sid payload =
     (case payload of
        Val p \<Rightarrow>
          (case rooms_get rs (update_roomId p) of
             None \<Rightarrow> Inr (rs, [])
           | Some (rid, room) \<Rightarrow>
               (case find (\<lambda>q. socket q = sid) (players room) of
                  None \<Rightarrow> Inr (rs, [])
                | Some player \<Rightarrow>
                    (case basePosition (playerData player) of
                       Val playerBasePosition \<Rightarrow>
                         (case update_blockData p of
                            Val bd \<Rightarrow>
                              (case position bd of
                                 Val pos \<Rightarrow>
                                   (let relativeChange =
                                          \<lparr>change_id = block_id bd,
                                           relativePosition =
                                             \<lparr>coord_x = js_minus (coord_x pos) (coord_x playerBasePosition),
                                              coord_y = js_minus (coord_y pos) (coord_y playerBasePosition),
                                              coord_z = js_minus (coord_z pos) (coord_z playerBasePosition)\<rparr>,
                                           change_quaternion = quaternion bd\<rparr>
                                    in Inr (rs,
                                         Emit (Io_to (Val rid)) (UpdateBlockMsg rid relativeChange) #
                                         (case findIndex (\<lambda>q. socket q = sid) (players room) of
                                            Some currentPlayerIndex \<Rightarrow>
                                              (let nextPlayerIndex =
                                                     (currentPlayerIndex + 1) mod length (players room);
                                                   nextPlayerId =
                                                     name (playerData (players room ! nextPlayerIndex))
                                               in [Emit (Io_to (Val rid)) (TurnUpdate nextPlayerId rid)])
                                          | None \<Rightarrow> [])))
                               | _ \<Rightarrow> Inl (TypeError []))
                          | _ \<Rightarrow> Inl (TypeError []))
                     | _ \<Rightarrow> Inr (rs, []))))
      | _ \<Rightarrow> Inl (TypeError []))"

definition tower_collapsed :: "'n rooms \<Rightarrow> socket_id \<Rightarrow> collapsePayload js \<Rightarrow> 'n result" where
  "tower_collapsed rs sid payload =
     (case payload of
        Val p \<Rightarrow>
          (case rooms_get rs (collapse_roomId p) of
             None \<Rightarrow> Inr (rs, [Emit Socket_emit (RoomError ''Room not found'')])
           | Some (rid, room) \<Rightarrow>
               Inr (rs,
                    Emit (Io_to (collapse_playerId p))
                      (GameResult ''You lost! You caused the tower to collapse.'' rid
                         (collapse_playerId p)) #
                    map (\<lambda>q. Emit (Io_to (Val (socket q)))
                               (GameResult ''You won! The other player caused the tower to collapse.''
                                  rid Undefined))
                      (filter (\<lambda>q. Val (socket q) \<noteq> collapse_playerId p) (players room))))
      | _ \<Rightarrow> Inl (TypeError []))"

text \<open>
  \<^verbatim>\<open>disconnect\<close>: the loop over the rooms removes the first entry of the socket in the
  first room that has one, and stops; the room is deleted when its identifier is truthy
  (not the empty string) and no player is left.
\<close>

fun disconnect_loop :: "socket_id \<Rightarrow> 'n rooms \<Rightarrow> room_id option \<times> 'n rooms" where
  "disconnect_loop sid [] = (None, [])"
| "disconnect_loop sid ((rid, room) # rest) =
     (case findIndex (\<lambda>q. socket q = sid) (players room) of
        Some index \<Rightarrow> (Some rid, (rid, room\<lparr>players := splice1 index (players room)\<rparr>) # rest)
      | None \<Rightarrow> (case disconnect_loop sid rest of (found, rest') \<Rightarrow> (found, (rid, room) # rest')))"

definition disconnect :: "'n rooms \<Rightarrow> socket_id \<Rightarrow> 'n result" where
  "disconnect rs sid =
     (case disconnect_loop sid rs of
        (found, rs') \<Rightarrow>
          (case found of
             Some rid \<Rightarrow>
               if rid \<noteq> [] then
                 (case map_of rs' rid of
                    Some room \<Rightarrow>
                      if length (players room) = 0 then Inr (map_delete rs' rid, [])
                      else Inr (rs', [Emit (Socket_to rid) (PlayerDisconnected sid)])
                  | None \<Rightarrow> Inl (TypeError []))
               else Inr (rs', [])
           | None \<Rightarrow> Inr (rs', [])))"

subsection \<open>Events and runs\<close>

datatype 'n event =
    Ev_createRoom room_id "'n clientData js"
  | Ev_joinRoom "'n joinPayload js"
  | Ev_set_base_position "'n basePayload js"
  | Ev_player_ready "readyPayload js"
  | Ev_update_block "'n updatePayload js"
  | Ev_tower_collapsed "collapsePayload js"
  | Ev_disconnect

fun handle :: "number rooms \<Rightarrow> socket_id \<Rightarrow> number event \<Rightarrow> number result" where
  "handle rs sid (Ev_createRoom gen pd) = createRoom gen rs sid pd"
| "handle rs sid (Ev_joinRoom payload) = joinRoom rs sid payload"
| "handle rs sid (Ev_set_base_position payload) = set_base_position rs sid payload"
| "handle rs sid (Ev_player_ready payload) = player_ready rs sid payload"
| "handle rs sid (Ev_update_block payload) = update_block rs sid payload"
| "handle rs sid (Ev_tower_collapsed payload) = tower_collapsed rs sid payload"
| "handle rs sid Ev_disconnect = disconnect rs sid"

text \<open>
  A run handles the events of the sockets one after the other, from the empty table or any
  other, and collects what was emitted. It stops at the first handler that throws.
\<close>

fun run :: "number rooms \<Rightarrow> (socket_id \<times> number event) list \<Rightarrow> number result" where
  "run rs [] = Inr (rs, [])"
| "run rs ((sid, ev) # evs) =
     (case handle rs sid ev of
        Inl e \<Rightarrow> Inl e
      | Inr (rs', out) \<Rightarrow>
          (case run rs' evs of
             Inl (TypeError out') \<Rightarrow> Inl (TypeError (out @ out'))
           | Inr (rs'', out') \<Rightarrow> Inr (rs'', out @ out')))"

subsection \<open>What is read off a state or a run\<close>

text \<open>The rooms that have the socket among their players, in the order of the table.\<close>

definition rooms_of :: "'n rooms \<Rightarrow> socket_id \<Rightarrow> room_id list" where
  "rooms_of rs sid =
     map fst (filter (\<lambda>(rid, room). sid \<in> set (map socket (players room))) rs)"

text \<open>
  The name of every player is the identifier of its socket: \<^verbatim>\<open>addPlayer\<close> sets it so, and
  the \<^verbatim>\<open>turn-update\<close> messages carry the name.
\<close>

definition server_names :: "'n rooms \<Rightarrow> bool" where
  "server_names rs =
     list_all (\<lambda>(rid, room). list_all (\<lambda>q. name (playerData q) = socket q) (players room)) rs"

text \<open>
  How the players of a room before an event relate to the players after it: no player
  has left or changed its socket, a flag \<^verbatim>\<open>ready\<close> that was true is still true, and a flag
  has become true only under \<open>signal\<close> and for an entry of the socket \<open>sid\<close>.
\<close>

definition flags_kept :: "socket_id \<Rightarrow> bool \<Rightarrow> 'n player list \<Rightarrow> 'n player list \<Rightarrow> bool" where
  "flags_kept sid signal ps ps' =
     (length ps \<le> length ps' \<and>
      (\<forall>i<length ps.
         socket (ps' ! i) = socket (ps ! i)
         \<and> (ready (playerData (ps ! i)) \<longrightarrow> ready (playerData (ps' ! i)))
         \<and> (ready (playerData (ps' ! i)) \<and> \<not> ready (playerData (ps ! i)) \<longrightarrow>
              signal \<and> socket (ps ! i) = sid)))"

text \<open>The players named by the \<^verbatim>\<open>turn-update\<close> messages of a run, in their order.\<close>

fun turn_updates :: "'n effect list \<Rightarrow> socket_id list" where
  "turn_updates [] = []"
| "turn_updates (Emit t (TurnUpdate currentTurn rid) # out) = currentTurn # turn_updates out"
| "turn_updates (e # out) = turn_updates out"

text \<open>
  An \<^verbatim>\<open>update-block\<close> event for the room \<open>rid\<close> whose payload has the block and its
  position.
\<close>

fun is_update_for :: "room_id \<Rightarrow> 'n event \<Rightarrow> bool" where
  "is_update_for rid (Ev_update_block (Val p)) =
     (update_roomId p = Val rid \<and>
      (case update_blockData p of
         Val bd \<Rightarrow> (case position bd of Val pos \<Rightarrow> True | _ \<Rightarrow> False)
       | _ \<Rightarrow> False))"
| "is_update_for rid ev = False"

subsection \<open>The words of the specification\<close>

text \<open>
  Two finite binary64 values whose exact difference, taken in units, is a binary64
  value.
\<close>

definition exact_difference :: "number \<Rightarrow> number \<Rightarrow> bool" where
  "exact_difference x y =
     (is_double x \<and> is_finite x \<and> is_double y \<and> is_finite y
      \<and> is_double (normal (units x - units y) (- 1074)))"

text \<open>
  The specification's condition for the start of the game: the room has two players and
  every player is ready.
\<close>

definition spec_allReady :: "'n room \<Rightarrow> bool" where
  "spec_allReady room =
     (length (players room) = 2 \<and> list_all (\<lambda>q. ready (playerData q)) (players room))"

subsection \<open>States used as examples\<close>

text \<open>The room \<^verbatim>\<open>r1\<close> just after \<^verbatim>\<open>A\<close> has created it: no base position, not ready.\<close>

definition fresh_room :: "number rooms" where
  "fresh_room =
     [(''r1'', \<lparr>roomId = ''r1'',
               players = [\<lparr>socket = ''A'',
                           playerData = \<lparr>name = ''A'', ready = False,
                             basePosition = Undefined, display = []\<rparr>\<rparr>],
               gameState = []\<rparr>)]"

text \<open>
  A room \<^verbatim>\<open>r1\<close> created by the socket \<^verbatim>\<open>A\<close>, which has set its base position
  to \<open>(1, 2, 3)\<close>.
\<close>

definition calibrated_room :: "number rooms" where
  "calibrated_room =
     [(''r1'', \<lparr>roomId = ''r1'',
               players = [\<lparr>socket = ''A'',
                           playerData = \<lparr>name = ''A'', ready = False,
                             basePosition = Val \<lparr>coord_x = js_integer 1, coord_y = js_integer 2, coord_z = js_integer 3\<rparr>,
                             display = []\<rparr>\<rparr>],
               gameState = []\<rparr>)]"

text \<open>
  A room \<^verbatim>\<open>r1\<close> created by \<^verbatim>\<open>A\<close> and joined by \<^verbatim>\<open>B\<close>; both have set a base position
  and both are ready.
\<close>

definition two_players :: "number rooms" where
  "two_players =
     [(''r1'', \<lparr>roomId = ''r1'',
               players = [\<lparr>socket = ''A'',
                           playerData = \<lparr>name = ''A'', ready = True,
                             basePosition = Val \<lparr>coord_x = js_integer 0, coord_y = js_integer 0, coord_z = js_integer 0\<rparr>,
                             display = []\<rparr>\<rparr>,
                          \<lparr>socket = ''B'',
                           playerData = \<lparr>name = ''B'', ready = True,
                             basePosition = Val \<lparr>coord_x = js_integer 1, coord_y = js_integer 2, coord_z = js_integer 3\<rparr>,
                             display = []\<rparr>\<rparr>],
               gameState = []\<rparr>)]"

text \<open>An \<^verbatim>\<open>update-block\<close> of the block \<^verbatim>\<open>obj1\<close> at \<open>(1, 1, 1)\<close> in the room \<^verbatim>\<open>r1\<close>.\<close>

definition update_obj1 :: "number event" where
  "update_obj1 =
     Ev_update_block
       (Val \<lparr>update_roomId = Val ''r1'',
             update_blockData =
               Val \<lparr>block_id = Val ''obj1'',
                     position = Val \<lparr>coord_x = js_integer 1, coord_y = js_integer 1, coord_z = js_integer 1\<rparr>,
                     quaternion = Undefined\<rparr>\<rparr>)"

section \<open>Lemmas on the model\<close>

subsection \<open>Numbers\<close>

text \<open>
  The representation with an odd \<open>m\<close> depends on the value alone, and rounding leaves a
  binary64 value as it is. So the difference of two finite binary64 values is exact
  whenever it is a binary64 value.
\<close>

lemma normal_zero: "normal 0 e = Dyadic 0 0"
  by (simp add: normal.simps)

lemma normal_odd: "odd m \<Longrightarrow> normal m e = Dyadic m e"
  by (subst normal.simps) auto

lemma normal_shift: "normal (m * 2 ^ j) e = normal m (e + int j)"
proof (induction j arbitrary: e)
  case 0
  show ?case by simp
next
  case (Suc j)
  show ?case
  proof (cases "m = 0")
    case True
    then show ?thesis by (simp add: normal_zero)
  next
    case False
    have "normal (m * 2 ^ Suc j) e = normal (m * 2 ^ j) (e + 1)"
      using False by (subst normal.simps) simp
    also have "\<dots> = normal m (e + 1 + int j)" by (rule Suc.IH)
    finally show ?thesis by (simp add: ac_simps)
  qed
qed

lemma normal_cases:
  "m \<noteq> 0 \<Longrightarrow> \<exists>m0 j. normal m e = Dyadic m0 (e + int j) \<and> m = m0 * 2 ^ j \<and> odd m0"
proof (induction m e rule: normal.induct)
  case (1 m e)
  show ?case
  proof (cases "even m")
    case True
    with "1.prems" have d: "m div 2 \<noteq> 0" by auto
    from "1.IH" [OF "1.prems" True d] obtain m0 j where
      h: "normal (m div 2) (e + 1) = Dyadic m0 (e + 1 + int j)" "m div 2 = m0 * 2 ^ j" "odd m0"
      by blast
    from True h(2) have "m = m0 * 2 ^ Suc j" by auto
    moreover have "normal m e = Dyadic m0 (e + int (Suc j))"
      using "1.prems" True h(1) by (subst normal.simps) (simp add: ac_simps)
    ultimately show ?thesis using h(3) by blast
  next
    case False
    then have "normal m e = Dyadic m (e + int 0)" "m = m * 2 ^ 0"
      by (simp_all add: normal_odd)
    with False show ?thesis by blast
  qed
qed

lemma is_finite_normal: "is_finite (normal m e)"
proof (cases "m = 0")
  case True
  then show ?thesis by (simp add: normal_zero)
next
  case False
  from normal_cases [OF False, of e] show ?thesis by auto
qed

lemma units_normal: "- 1074 \<le> e \<Longrightarrow> units (normal m e) = m * 2 ^ nat (e + 1074)"
proof (cases "m = 0")
  case True
  then show ?thesis by (simp add: normal_zero)
next
  case False
  assume e: "- 1074 \<le> e"
  from normal_cases [OF False, of e] obtain m0 j where
    h: "normal m e = Dyadic m0 (e + int j)" "m = m0 * 2 ^ j" "odd m0" by blast
  have "nat (e + int j + 1074) = j + nat (e + 1074)" using e by simp
  then show ?thesis using h by (simp add: power_add)
qed

lemma units_shift: "- 1074 \<le> e \<Longrightarrow> normal (m * 2 ^ nat (e + 1074)) (- 1074) = normal m e"
  using normal_shift [of m "nat (e + 1074)" "- 1074"] by simp

lemma round_shift_exact: "2 ^ k dvd m \<Longrightarrow> round_shift m k = m div 2 ^ k"
  by (auto simp: round_shift_def Let_def mod_eq_0_iff_dvd)

lemma round64_exact:
  assumes "odd m0" and "\<bar>m0\<bar> < 2 ^ 53" and "- 1074 \<le> e0" and "e0 + bitlen \<bar>m0\<bar> \<le> 1024"
    and "m = m0 * 2 ^ j" and "e0 = e + int j"
  shows "round64 m e = Dyadic m0 e0"
proof -
  from assms(1) have pos: "0 < \<bar>m0\<bar>" by auto
  have absm: "\<bar>m\<bar> = \<bar>m0\<bar> * 2 ^ j" using assms(5) by (simp add: abs_mult)
  have bl: "bitlen \<bar>m\<bar> = bitlen \<bar>m0\<bar> + int j"
    unfolding absm using pos by (rule bitlen_pow2)
  have b53: "bitlen \<bar>m0\<bar> \<le> 53"
    using assms(2) by (simp add: bitlen_le_iff_power)
  define E where "E = e + bitlen \<bar>m\<bar> - 1"
  define q where "q = max (E - 52) (- 1074)"
  have E: "E = e0 + bitlen \<bar>m0\<bar> - 1" using bl assms(6) by (simp add: E_def)
  have qle: "q \<le> e0" using b53 assms(3) by (simp add: q_def E)
  have E1023: "E \<le> 1023" using assms(4) by (simp add: E)
  have mne: "m \<noteq> 0" using assms(1,5) by auto
  show ?thesis
  proof (cases "q \<le> e")
    case True
    have "round64 m e = normal m e"
      unfolding round64_def Let_def unfolding E_def [symmetric] unfolding q_def [symmetric]
      using True mne E1023 [unfolded E_def] by (simp split del: if_split)
    also have "\<dots> = normal m0 (e + int j)" unfolding assms(5) by (rule normal_shift)
    also have "\<dots> = Dyadic m0 e0" using assms(1,6) by (simp add: normal_odd)
    finally show ?thesis .
  next
    case False
    define k where "k = nat (q - e)"
    from False qle assms(6) have k: "0 < k" "k \<le> j" "q = e + int k"
      by (simp_all add: k_def)
    have dv: "(2::int) ^ k dvd m" unfolding assms(5) using k(2) by (simp add: le_imp_power_dvd)
    have m': "round_shift m k = m0 * 2 ^ (j - k)"
    proof -
      have "m = (m0 * 2 ^ (j - k)) * 2 ^ k"
        unfolding assms(5) using k(2) by (simp add: power_add [symmetric])
      then have "m div 2 ^ k = m0 * 2 ^ (j - k)" by simp
      with round_shift_exact [OF dv] show ?thesis by simp
    qed
    have m'ne: "m0 * 2 ^ (j - k) \<noteq> 0" using assms(1) by auto
    have bl': "bitlen \<bar>m0 * 2 ^ (j - k)\<bar> = bitlen \<bar>m0\<bar> + int (j - k)"
      using bitlen_pow2 [OF pos, of "j - k"] by (simp add: abs_mult)
    have top: "q + bitlen \<bar>m0 * 2 ^ (j - k)\<bar> - 1 = E"
      using bl' k(2,3) assms(6) by (simp add: E)
    have "round64 m e = normal (m0 * 2 ^ (j - k)) q"
      unfolding round64_def Let_def unfolding E_def [symmetric] unfolding q_def [symmetric]
      unfolding k_def [symmetric]
      using False m' m'ne top [symmetric] E1023 by (simp split del: if_split)
    also have "\<dots> = normal m0 (q + int (j - k))" by (rule normal_shift)
    also have "\<dots> = Dyadic m0 e0" using assms(1,6) k(2,3) by (simp add: normal_odd)
    finally show ?thesis .
  qed
qed

lemma round64_normal:
  assumes "m \<noteq> 0" and "- 1074 \<le> e" and "is_double (normal m e)"
  shows "round64 m e = normal m e"
proof -
  from normal_cases [OF assms(1), of e] obtain m0 j where
    h: "normal m e = Dyadic m0 (e + int j)" "m = m0 * 2 ^ j" "odd m0" by blast
  from assms(3) h(1,3) have "\<bar>m0\<bar> < 2 ^ 53" "- 1074 \<le> e + int j"
    "e + int j + bitlen \<bar>m0\<bar> \<le> 1024"
    by (auto split: if_splits)
  from round64_exact [OF h(3) this h(2) refl] h(1) show ?thesis by simp
qed

lemma round64_units:
  assumes "m \<noteq> 0" and "- 1074 \<le> e"
    and "is_double (normal (m * 2 ^ nat (e + 1074)) (- 1074))"
  shows "is_finite (round64 m e) \<and> units (round64 m e) = m * 2 ^ nat (e + 1074)"
  using assms round64_normal [of m e]
  by (simp add: units_shift units_normal is_finite_normal)

lemma js_minus_exact:
  assumes "is_double x" and "is_double y" and "is_finite x" and "is_finite y"
    and "is_double (normal (units x - units y) (- 1074))"
  shows "is_finite (js_minus x y) \<and> units (js_minus x y) = units x - units y"
proof (cases x)
  case NegZero
  show ?thesis
  proof (cases y)
    case (Dyadic m2 e2)
    show ?thesis
    proof (cases "m2 = 0")
      case True
      with NegZero Dyadic show ?thesis by simp
    next
      case False
      with assms(2) Dyadic have e2: "- 1074 \<le> e2" by simp
      from assms(5) NegZero Dyadic
      have "is_double (normal ((- m2) * 2 ^ nat (e2 + 1074)) (- 1074))" by simp
      from round64_units [OF _ e2 this] False NegZero Dyadic show ?thesis by simp
    qed
  qed (use assms NegZero in simp_all)
next
  case (Dyadic m1 e1)
  from assms(1) Dyadic have e1: "- 1074 \<le> e1" by (simp split: if_splits)
  show ?thesis
  proof (cases y)
    case NegZero
    show ?thesis
    proof (cases "m1 = 0")
      case True
      with NegZero Dyadic show ?thesis by simp
    next
      case False
      from assms(5) NegZero Dyadic
      have "is_double (normal (m1 * 2 ^ nat (e1 + 1074)) (- 1074))" by simp
      from round64_units [OF False e1 this] False NegZero Dyadic show ?thesis by simp
    qed
  next
    case y: (Dyadic m2 e2)
    from assms(2) y have e2: "- 1074 \<le> e2" by (simp split: if_splits)
    define e where "e = min e1 e2"
    define m where "m = m1 * 2 ^ nat (e1 - e) - m2 * 2 ^ nat (e2 - e)"
    have e: "- 1074 \<le> e" using e1 e2 by (simp add: e_def)
    have s1: "nat (e1 + 1074) = nat (e1 - e) + nat (e + 1074)"
      and s2: "nat (e2 + 1074) = nat (e2 - e) + nat (e + 1074)"
      using e1 e2 by (simp_all add: e_def)
    have u: "units x - units y = m * 2 ^ nat (e + 1074)"
      unfolding Dyadic y units.simps s1 s2 m_def by (simp add: power_add algebra_simps)
    have j: "js_minus x y = (if m = 0 then Dyadic 0 0 else round64 m e)"
      unfolding Dyadic y by (simp add: Let_def e_def m_def)
    show ?thesis
    proof (cases "m = 0")
      case True
      with j u show ?thesis by simp
    next
      case False
      from assms(5) have "is_double (normal (m * 2 ^ nat (e + 1074)) (- 1074))"
        unfolding u .
      from round64_units [OF False e this] j False u show ?thesis by simp
    qed
  qed (use assms Dyadic in simp_all)
qed (use assms in simp_all)

text \<open>Integers: an integer of magnitude at most \<open>2 ^ 53\<close> is a binary64 value.\<close>

lemma units_js_integer: "units (js_integer a) = a * 2 ^ 1074"
  using units_normal [of 0 a] by (simp add: js_integer_def)

lemma normal_units_integer: "normal (a * 2 ^ 1074) (- 1074) = js_integer a"
  using normal_shift [of a 1074 "- 1074"] by (simp add: js_integer_def)

lemma is_double_js_integer:
  assumes "\<bar>a\<bar> \<le> 2 ^ 53"
  shows "is_double (js_integer a)"
proof (cases "a = 0")
  case True
  then show ?thesis by (simp add: js_integer_def normal_zero)
next
  case False
  from normal_cases [OF False, of 0] obtain m0 j where
    h: "normal a 0 = Dyadic m0 (int j)" "a = m0 * 2 ^ j" "odd m0" by auto
  from h(3) have pos: "0 < \<bar>m0\<bar>" by auto
  have absa: "\<bar>a\<bar> = \<bar>m0\<bar> * 2 ^ j" using h(2) by (simp add: abs_mult)
  have "\<bar>m0\<bar> * 1 \<le> \<bar>m0\<bar> * 2 ^ j" by (rule mult_left_mono) simp_all
  with assms absa have le: "\<bar>m0\<bar> \<le> 2 ^ 53" by simp
  have "\<bar>m0\<bar> \<noteq> 2 ^ 53" using h(3) by (metis even_abs_add_iff even_add even_numeral even_power zero_less_numeral)
  with le have lt: "\<bar>m0\<bar> < 2 ^ 53" by simp
  have "bitlen \<bar>a\<bar> \<le> 54" using assms by (simp add: bitlen_le_iff_power)
  moreover have "bitlen \<bar>a\<bar> = bitlen \<bar>m0\<bar> + int j"
    unfolding absa using pos by (rule bitlen_pow2)
  ultimately have "int j + bitlen \<bar>m0\<bar> \<le> 1024" by simp
  with h(1,3) lt show ?thesis by (auto simp: js_integer_def)
qed

lemma is_finite_js_integer: "is_finite (js_integer a)"
  by (simp add: js_integer_def is_finite_normal)

lemma exact_difference_integer:
  assumes "\<bar>a\<bar> \<le> 2 ^ 53" and "\<bar>b\<bar> \<le> 2 ^ 53" and "\<bar>a - b\<bar> \<le> 2 ^ 53"
  shows "exact_difference (js_integer a) (js_integer b)"
proof -
  have "units (js_integer a) - units (js_integer b) = (a - b) * 2 ^ 1074"
    by (simp add: units_js_integer left_diff_distrib)
  then have "normal (units (js_integer a) - units (js_integer b)) (- 1074) = js_integer (a - b)"
    by (simp only: normal_units_integer)
  with assms show ?thesis
    by (simp add: exact_difference_def is_double_js_integer is_finite_js_integer)
qed

text \<open>Rules to evaluate a subtraction of integer literals.\<close>

lemmas js_eval = js_integer_def normal.simps round64_def round_shift_def compute_bitlen

lemma js_minus_1_0: "js_minus (js_integer 1) (js_integer 0) = js_integer 1"
  by (simp add: js_eval Let_def)

text \<open>
  Some values of the subtraction: \<open>1.5 - 0.1\<close> is the binary64 value nearest to \<open>1.4\<close>;
  \<open>2 ^ 53 - (-1)\<close> is a tie and rounds to the even \<open>2 ^ 53\<close>, and \<open>(2 ^ 53 + 2) - (-1)\<close>
  to \<open>2 ^ 53 + 4\<close>; the largest value minus its opposite is an infinity; the smallest
  values are subtracted exactly.
\<close>

lemma js_minus_examples:
  "js_minus (Dyadic 3 (- 1)) (Dyadic 3602879701896397 (- 55)) = Dyadic 3152519739159347 (- 51)"
  "js_minus (js_integer 9007199254740992) (js_integer (- 1)) = js_integer 9007199254740992"
  "js_minus (js_integer 9007199254740994) (js_integer (- 1)) = js_integer 9007199254740996"
  "js_minus (Dyadic 9007199254740991 971) (Dyadic (- 9007199254740991) 971) = PosInfinity"
  "js_minus (Dyadic (- 9007199254740991) 971) (Dyadic 1 970) = NegInfinity"
  "js_minus (Dyadic 9007199254740991 971) (Dyadic (- 1) 969) = Dyadic 9007199254740991 971"
  "js_minus (Dyadic 1 (- 1074)) (Dyadic 3 (- 1074)) = Dyadic (- 1) (- 1073)"
  "js_minus (js_integer 5) (js_integer 5) = Dyadic 0 0"
  "js_minus NegZero (Dyadic 0 0) = NegZero"
  "js_minus PosInfinity PosInfinity = NaN"
  "js_minus (js_integer 5) NegInfinity = PosInfinity"
  by (simp_all add: js_eval Let_def)

subsection \<open>The table\<close>

text \<open>\<^verbatim>\<open>Map.set\<close>, \<^verbatim>\<open>Map.get\<close> and \<^verbatim>\<open>Map.delete\<close> on the table.\<close>

lemma map_of_map_set: "map_of (map_set kvs k v) k' = (if k' = k then Some v else map_of kvs k')"
  by (induction kvs) auto

lemma map_set_fresh: "map_of kvs k = None \<Longrightarrow> map_set kvs k v = kvs @ [(k, v)]"
  by (induction kvs) (auto split: if_splits)

lemma map_of_map_delete:
  "map_of (map_delete kvs k) k' = (if k' = k then None else map_of kvs k')"
  by (induction kvs) auto

lemma map_fst_map_set:
  "map fst (map_set kvs k v) = (if k \<in> set (map fst kvs) then map fst kvs else map fst kvs @ [k])"
  by (induction kvs) (auto simp: rev_image_eqI)

lemma map_fst_map_delete: "map fst (map_delete kvs k) = filter (\<lambda>k'. k' \<noteq> k) (map fst kvs)"
  by (induction kvs) auto

lemma list_all_map_set: "list_all P kvs \<Longrightarrow> P (k, v) \<Longrightarrow> list_all P (map_set kvs k v)"
  by (induction kvs) auto

lemma list_all_map_delete: "list_all P kvs \<Longrightarrow> list_all P (map_delete kvs k)"
  by (induction kvs) auto

lemma rooms_get_Some: "rooms_get rs r = Some (rid, room) \<longleftrightarrow> r = Val rid \<and> map_of rs rid = Some room"
  by (cases r) (auto split: option.splits)

subsection \<open>Arrays\<close>

text \<open>\<^verbatim>\<open>findIndex\<close>, \<^verbatim>\<open>find\<close> and \<^verbatim>\<open>splice\<close>.\<close>

lemma findIndex_Some:
  "findIndex P xs = Some i \<Longrightarrow> i < length xs \<and> P (xs ! i) \<and> (\<forall>j<i. \<not> P (xs ! j))"
proof (induction xs arbitrary: i)
  case Nil
  then show ?case by simp
next
  case (Cons x xs)
  show ?case
  proof (cases "P x")
    case True
    with Cons.prems show ?thesis by simp
  next
    case False
    with Cons.prems obtain k where k: "findIndex P xs = Some k" "i = Suc k"
      by (auto split: option.splits)
    from Cons.IH [OF k(1)] False k(2) show ?thesis
      by (auto simp: nth_Cons split: nat.splits)
  qed
qed

lemma findIndex_None: "findIndex P xs = None \<longleftrightarrow> (\<forall>x\<in>set xs. \<not> P x)"
  by (induction xs) (auto split: option.splits)

lemma findIndex_member:
  "findIndex (\<lambda>q. socket q = sid) ps = None \<longleftrightarrow> sid \<notin> set (map socket ps)"
  by (auto simp: findIndex_None)

lemma find_None_iff: "find P xs = None \<longleftrightarrow> (\<forall>x\<in>set xs. \<not> P x)"
  by (induction xs) auto

lemma splice1_filter:
  "findIndex P xs = Some i \<Longrightarrow> length (filter P xs) = 1 \<Longrightarrow>
   splice1 i xs = filter (\<lambda>x. \<not> P x) xs"
proof (induction xs arbitrary: i)
  case Nil
  then show ?case by simp
next
  case (Cons x xs)
  show ?case
  proof (cases "P x")
    case True
    with Cons.prems have "i = 0" "filter P xs = []" by simp_all
    then have "filter (\<lambda>x. \<not> P x) xs = xs"
      by (simp add: filter_empty_conv)
    with True \<open>i = 0\<close> show ?thesis by (simp add: splice1_def)
  next
    case False
    with Cons.prems obtain k where k: "findIndex P xs = Some k" "i = Suc k"
      by (auto split: option.splits)
    from Cons.prems(2) False have "length (filter P xs) = 1" by simp
    from Cons.IH [OF k(1) this] False k(2) show ?thesis
      by (simp add: splice1_def)
  qed
qed

lemma list_all_splice1: "list_all P xs \<Longrightarrow> list_all P (splice1 i xs)"
  by (auto simp: splice1_def list_all_iff dest: in_set_takeD in_set_dropD)

subsection \<open>Entering a room\<close>

text \<open>\<^verbatim>\<open>addPlayer\<close> with its default parameter.\<close>

lemma default_param_idem: "default_param (default_param pd) = default_param pd"
  by (cases pd) simp_all

lemma addPlayer_default: "addPlayer room sid (default_param pd) = addPlayer room sid pd"
  by (simp add: addPlayer_def default_param_idem)

lemma addPlayer_Inr:
  "pd \<noteq> Null \<Longrightarrow>
   addPlayer room sid pd =
     Inr (room\<lparr>players := players room @
            [\<lparr>socket = sid,
              playerData =
                \<lparr>name = sid,
                 ready = (case pd of Val d \<Rightarrow> truthy (client_ready d) | _ \<Rightarrow> False),
                 basePosition = (case pd of Val d \<Rightarrow> client_basePosition d | _ \<Rightarrow> Undefined),
                 display = (case pd of Val d \<Rightarrow> client_display d | _ \<Rightarrow> [])\<rparr>\<rparr>]\<rparr>)"
  by (cases pd) (simp_all add: addPlayer_def empty_object_def)

lemma addPlayer_players:
  "addPlayer room sid pd = Inr room' \<Longrightarrow>
   \<exists>q. players room' = players room @ [q] \<and> socket q = sid
      \<and> ready (playerData q) = (case pd of Val d \<Rightarrow> truthy (client_ready d) | _ \<Rightarrow> False)"
  by (cases pd) (auto simp: addPlayer_def empty_object_def)

lemma addPlayer_room:
  "addPlayer room sid pd = Inr room' \<Longrightarrow>
   \<exists>q. room' = room\<lparr>players := players room @ [q]\<rparr> \<and> socket q = sid
      \<and> ready (playerData q) = (case pd of Val d \<Rightarrow> truthy (client_ready d) | _ \<Rightarrow> False)"
  by (cases pd) (auto simp: addPlayer_def empty_object_def)

lemma addPlayer_names:
  "addPlayer room sid pd = Inr room' \<Longrightarrow>
   list_all (\<lambda>q. name (playerData q) = socket q) (players room) \<Longrightarrow>
   list_all (\<lambda>q. name (playerData q) = socket q) (players room')"
  by (cases pd) (auto simp: addPlayer_def empty_object_def)

subsection \<open>The example states\<close>

text \<open>
  Every example state is the table after a run from the empty table. The third run is the
  scenario of the specification: \<^verbatim>\<open>A\<close> creates \<^verbatim>\<open>r1\<close>, \<^verbatim>\<open>B\<close> joins, both set a base
  position and both are ready; the game starts at the second \<^verbatim>\<open>player-ready\<close> and the
  first turn is the one of \<^verbatim>\<open>A\<close>.
\<close>

lemma fresh_room_reached:
  "run [] [(''A'', Ev_createRoom ''r1'' Undefined)] =
     Inr (fresh_room, [Join ''r1'', Emit Socket_emit (RoomCreated ''r1'')])"
  by (simp add: createRoom_def Room_def addPlayer_def empty_object_def fresh_room_def Let_def)

lemma calibrated_room_reached:
  "run [] [(''A'', Ev_createRoom ''r1'' Undefined),
           (''A'', Ev_set_base_position
                     (Val \<lparr>base_roomId = Val ''r1'',
                           base_position = Val \<lparr>coord_x = js_integer 1, coord_y = js_integer 2, coord_z = js_integer 3\<rparr>\<rparr>))] =
     Inr (calibrated_room, [Join ''r1'', Emit Socket_emit (RoomCreated ''r1'')])"
  by (simp add: createRoom_def Room_def addPlayer_def empty_object_def set_base_position_def
      calibrated_room_def Let_def)

lemma two_players_reached:
  "run [] [(''A'', Ev_createRoom ''r1'' Undefined),
           (''B'', Ev_joinRoom (Val \<lparr>join_roomId = Val ''r1'', join_playerData = Undefined\<rparr>)),
           (''A'', Ev_set_base_position
                     (Val \<lparr>base_roomId = Val ''r1'',
                           base_position = Val \<lparr>coord_x = js_integer 0, coord_y = js_integer 0, coord_z = js_integer 0\<rparr>\<rparr>)),
           (''B'', Ev_set_base_position
                     (Val \<lparr>base_roomId = Val ''r1'',
                           base_position = Val \<lparr>coord_x = js_integer 1, coord_y = js_integer 2, coord_z = js_integer 3\<rparr>\<rparr>)),
           (''A'', Ev_player_ready (Val \<lparr>ready_roomId = Val ''r1''\<rparr>)),
           (''B'', Ev_player_ready (Val \<lparr>ready_roomId = Val ''r1''\<rparr>))] =
     Inr (two_players,
          [Join ''r1'', Emit Socket_emit (RoomCreated ''r1''),
           Join ''r1'',
           Emit Socket_emit (JoinedRoom ''r1''
             \<lparr>state_roomId = ''r1'',
              state_players = [\<lparr>name = ''A'', ready = False, basePosition = Undefined, display = []\<rparr>,
                               \<lparr>name = ''B'', ready = False, basePosition = Undefined, display = []\<rparr>],
              state_gameState = []\<rparr>),
           Emit (Socket_to ''r1'') (PlayerJoined ''B'' (empty_object\<lparr>client_name := Val ''B''\<rparr>)),
           Emit (Io_to (Val ''r1'')) (StartGame []),
           Emit (Io_to (Val ''r1'')) (TurnUpdate ''A'' ''r1'')])"
  by (simp add: createRoom_def Room_def addPlayer_def empty_object_def set_base_position_def
      two_players_def Let_def joinRoom_def isFull_def getState_def player_ready_def)

subsection \<open>The players of a room\<close>

text \<open>Updates of one player of a room, and the relation \<open>flags_kept\<close>.\<close>

lemma map_socket_update:
  "i < length ps \<Longrightarrow>
   map socket (ps[i := (ps ! i)\<lparr>playerData := d\<rparr>]) = map socket ps"
  by (simp add: map_update list_update_same_conv)

lemma hd_name_update:
  "ps \<noteq> [] \<Longrightarrow>
   name (playerData (hd (ps[i := (ps ! i)\<lparr>playerData := (playerData (ps ! i))\<lparr>ready := b\<rparr>\<rparr>]))) =
   name (playerData (hd ps))"
  by (cases ps; cases i) simp_all

lemma list_all_update_data:
  "list_all (\<lambda>q. name (playerData q) = socket q) ps \<Longrightarrow> name d = name (playerData (ps ! i)) \<Longrightarrow>
   list_all (\<lambda>q. name (playerData q) = socket q) (ps[i := (ps ! i)\<lparr>playerData := d\<rparr>])"
  by (cases "i < length ps") (auto simp: list_all_length nth_list_update)

lemma flags_kept_refl: "flags_kept sid signal ps ps"
  by (simp add: flags_kept_def)

lemma flags_kept_append: "flags_kept sid signal ps (ps @ qs)"
  by (simp add: flags_kept_def nth_append)

lemma flags_kept_base:
  "flags_kept sid signal ps
     (ps[i := (ps ! i)\<lparr>playerData := (playerData (ps ! i))\<lparr>basePosition := v\<rparr>\<rparr>])"
  by (cases "i < length ps") (auto simp: flags_kept_def nth_list_update)

lemma flags_kept_ready:
  "findIndex (\<lambda>q. socket q = sid) ps = Some i \<Longrightarrow>
   flags_kept sid True ps
     (ps[i := (ps ! i)\<lparr>playerData := (playerData (ps ! i))\<lparr>ready := True\<rparr>\<rparr>])"
  using findIndex_Some [of "\<lambda>q. socket q = sid" ps i]
  by (auto simp: flags_kept_def nth_list_update)

subsection \<open>What a handler does to the table\<close>

text \<open>
  \<^verbatim>\<open>update-block\<close> and \<^verbatim>\<open>tower-collapsed\<close> never change the table; the other handlers
  leave it as it is or set one room.
\<close>

lemma update_block_state: "update_block rs sid payload = Inr (rs', out) \<Longrightarrow> rs' = rs"
  by (auto simp: update_block_def Let_def split: js.splits option.splits prod.splits)

lemma tower_collapsed_state: "tower_collapsed rs sid payload = Inr (rs', out) \<Longrightarrow> rs' = rs"
  by (auto simp: tower_collapsed_def split: js.splits option.splits prod.splits)

lemma createRoom_cases:
  assumes "createRoom gen rs sid pd = Inr (rs', out)"
  shows "\<exists>room1. rs' = map_set rs gen room1 \<and> addPlayer (Room gen) sid pd = Inr room1"
  using assms
  by (cases "addPlayer (Room gen) sid pd") (simp_all add: createRoom_def Let_def addPlayer_default)

lemma joinRoom_cases:
  assumes "joinRoom rs sid payload = Inr (rs', out)"
  shows "rs' = rs \<or>
     (\<exists>rid room0 room1 pd. rs' = map_set rs rid room1 \<and> map_of rs rid = Some room0
         \<and> addPlayer room0 sid pd = Inr room1)"
proof (cases payload)
  case (Val p)
  show ?thesis
  proof (cases "rooms_get rs (join_roomId p)")
    case None
    with Val assms show ?thesis by (simp add: joinRoom_def)
  next
    case (Some pr)
    obtain rid room0 where pr: "pr = (rid, room0)" by (cases pr)
    with Some have g: "map_of rs rid = Some room0" by (simp add: rooms_get_Some)
    show ?thesis
    proof (cases "isFull room0")
      case True
      with Val Some pr assms show ?thesis by (simp add: joinRoom_def)
    next
      case False
      show ?thesis
      proof (cases "addPlayer room0 sid (default_param (join_playerData p))")
        case (Inl e)
        with Val Some pr False assms show ?thesis by (simp add: joinRoom_def)
      next
        case (Inr room1)
        with Val Some pr False assms have "rs' = map_set rs rid room1"
          by (simp add: joinRoom_def)
        with g Inr show ?thesis by blast
      qed
    qed
  qed
qed (use assms in \<open>simp_all add: joinRoom_def\<close>)

lemma set_base_position_cases:
  assumes "set_base_position rs sid payload = Inr (rs', out)"
  shows "rs' = rs \<or>
     (\<exists>rid room0 i v. map_of rs rid = Some room0 \<and>
        rs' = map_set rs rid
           (room0\<lparr>players := (players room0)
              [i := (players room0 ! i)
                 \<lparr>playerData := (playerData (players room0 ! i))\<lparr>basePosition := v\<rparr>\<rparr>]\<rparr>))"
proof (cases payload)
  case (Val p)
  show ?thesis
  proof (cases "rooms_get rs (base_roomId p)")
    case None
    with Val assms show ?thesis by (simp add: set_base_position_def)
  next
    case (Some pr)
    obtain rid room0 where pr: "pr = (rid, room0)" by (cases pr)
    with Some have g: "map_of rs rid = Some room0" by (simp add: rooms_get_Some)
    show ?thesis
    proof (cases "findIndex (\<lambda>q. socket q = sid) (players room0)")
      case None
      with Val Some pr assms show ?thesis by (simp add: set_base_position_def)
    next
      case (Some i)
      with Val \<open>rooms_get rs (base_roomId p) = Some pr\<close> pr assms
      have "rs' = map_set rs rid
           (room0\<lparr>players := (players room0)
              [i := (players room0 ! i)
                 \<lparr>playerData := (playerData (players room0 ! i))
                    \<lparr>basePosition := base_position p\<rparr>\<rparr>]\<rparr>)"
        by (simp add: set_base_position_def)
      with g show ?thesis by blast
    qed
  qed
qed (use assms in \<open>simp_all add: set_base_position_def\<close>)

lemma player_ready_cases:
  assumes "player_ready rs sid payload = Inr (rs', out)"
  shows "rs' = rs \<or>
     (\<exists>p rid room0. payload = Val p \<and> ready_roomId p = Val rid \<and> map_of rs rid = Some room0 \<and>
        rs' = map_set rs rid
           (case findIndex (\<lambda>q. socket q = sid) (players room0) of
              Some i \<Rightarrow>
                room0\<lparr>players := (players room0)
                  [i := (players room0 ! i)
                     \<lparr>playerData := (playerData (players room0 ! i))\<lparr>ready := True\<rparr>\<rparr>]\<rparr>
            | None \<Rightarrow> room0))"
proof (cases payload)
  case (Val p)
  show ?thesis
  proof (cases "rooms_get rs (ready_roomId p)")
    case None
    with Val assms show ?thesis by (simp add: player_ready_def)
  next
    case (Some pr)
    obtain rid room0 where pr: "pr = (rid, room0)" by (cases pr)
    with Some have g: "ready_roomId p = Val rid" "map_of rs rid = Some room0"
      by (simp_all add: rooms_get_Some)
    let ?room' = "case findIndex (\<lambda>q. socket q = sid) (players room0) of
              Some i \<Rightarrow>
                room0\<lparr>players := (players room0)
                  [i := (players room0 ! i)
                     \<lparr>playerData := (playerData (players room0 ! i))\<lparr>ready := True\<rparr>\<rparr>]\<rparr>
            | None \<Rightarrow> room0"
    from Val Some pr assms have "rs' = map_set rs rid ?room'"
      by (cases "players ?room'")
         (simp_all add: player_ready_def Let_def split: if_splits)
    with Val g show ?thesis by blast
  qed
qed (use assms in \<open>simp_all add: player_ready_def\<close>)

subsection \<open>Updates in a room of two players\<close>

text \<open>
  In a room of two players with different sockets and set base positions, an
  \<^verbatim>\<open>update-block\<close> of either player leaves the table as it is and announces the other
  player, whoever was announced before.
\<close>

lemma update_block_two_players:
  fixes rs :: "number rooms"
  assumes "map_of rs rid = Some room"
    and "players room = [p0, p1]"
    and "socket p0 \<noteq> socket p1"
    and "basePosition (playerData p0) = Val b0"
    and "basePosition (playerData p1) = Val b1"
    and "is_update_for rid ev"
    and "sid = socket p0 \<or> sid = socket p1"
  shows "\<exists>change. handle rs sid ev =
           Inr (rs, [Emit (Io_to (Val rid)) (UpdateBlockMsg rid change),
                     Emit (Io_to (Val rid))
                       (TurnUpdate (if sid = socket p0 then name (playerData p1)
                                    else name (playerData p0)) rid)])"
proof -
  from assms(6) obtain p bd pos where ev: "ev = Ev_update_block (Val p)"
    and p: "update_roomId p = Val rid" "update_blockData p = Val bd" "position bd = Val pos"
    by (cases "(rid, ev)" rule: is_update_for.cases) (auto split: js.splits)
  show ?thesis
    using assms(1-5,7) p unfolding ev
    by (auto simp: update_block_def Let_def)
qed

lemma run_updates_two_players:
  fixes rs :: "number rooms"
  assumes "map_of rs rid = Some room"
    and "players room = [p0, p1]"
    and "socket p0 \<noteq> socket p1"
    and "basePosition (playerData p0) = Val b0"
    and "basePosition (playerData p1) = Val b1"
    and "\<forall>e\<in>set evs. is_update_for rid (snd e) \<and> (fst e = socket p0 \<or> fst e = socket p1)"
  shows "\<exists>out. run rs evs = Inr (rs, out) \<and>
           turn_updates out =
             map (\<lambda>e. if fst e = socket p0 then name (playerData p1) else name (playerData p0)) evs"
  using assms(6)
proof (induction evs)
  case Nil
  show ?case by simp
next
  case (Cons e evs)
  obtain sid ev where e: "e = (sid, ev)" by (cases e)
  from Cons.prems e have "is_update_for rid ev" "sid = socket p0 \<or> sid = socket p1"
    by auto
  from update_block_two_players [OF assms(1-5) this]
  obtain change where h: "handle rs sid ev =
           Inr (rs, [Emit (Io_to (Val rid)) (UpdateBlockMsg rid change),
                     Emit (Io_to (Val rid))
                       (TurnUpdate (if sid = socket p0 then name (playerData p1)
                                    else name (playerData p0)) rid)])"
    by blast
  from Cons.IH Cons.prems obtain out where out: "run rs evs = Inr (rs, out)"
    "turn_updates out =
       map (\<lambda>e. if fst e = socket p0 then name (playerData p1) else name (playerData p0)) evs"
    by auto
  show ?case
    unfolding e using h out by simp
qed

subsection \<open>The loop of disconnect\<close>

text \<open>
  The loop of \<^verbatim>\<open>disconnect\<close>: it changes nothing when no room has the socket; otherwise it
  removes the first entry of the socket in the first room that has one.
\<close>

lemma rooms_of_Nil [simp]: "rooms_of [] sid = []"
  by (simp add: rooms_of_def)

lemma rooms_of_Cons:
  "rooms_of ((rid, room) # rs) sid =
     (if sid \<in> set (map socket (players room)) then rid # rooms_of rs sid else rooms_of rs sid)"
  by (simp add: rooms_of_def)

lemma rooms_of_keys: "set (rooms_of rs sid) \<subseteq> set (map fst rs)"
  by (auto simp: rooms_of_def)

lemma rooms_of_map_delete:
  "rooms_of (map_delete rs rid) sid = filter (\<lambda>k. k \<noteq> rid) (rooms_of rs sid)"
  by (induction rs) (auto simp: rooms_of_Cons)

lemma rooms_of_map_set:
  "map_of rs rid = Some room \<Longrightarrow> sid \<notin> set (map socket (players room')) \<Longrightarrow>
   distinct (map fst rs) \<Longrightarrow>
   rooms_of (map_set rs rid room') sid = filter (\<lambda>k. k \<noteq> rid) (rooms_of rs sid)"
proof (induction rs)
  case Nil
  then show ?case by simp
next
  case (Cons a rs)
  obtain k room0 where a: "a = (k, room0)" by (cases a)
  show ?case
  proof (cases "k = rid")
    case True
    with Cons.prems(3) have "rid \<notin> set (map fst rs)" unfolding a by simp
    with rooms_of_keys [of rs sid] have "rid \<notin> set (rooms_of rs sid)" by auto
    then have "filter (\<lambda>k. k \<noteq> rid) (rooms_of rs sid) = rooms_of rs sid"
      by (auto simp: filter_id_conv)
    with True Cons.prems(2) show ?thesis unfolding a by (simp add: rooms_of_Cons)
  next
    case False
    with Cons.prems have "map_of rs rid = Some room" "distinct (map fst rs)"
      unfolding a by simp_all
    from Cons.IH [OF this(1) Cons.prems(2) this(2)] False show ?thesis
      unfolding a by (simp add: rooms_of_Cons)
  qed
qed

lemma disconnect_loop_none:
  "rooms_of rs sid = [] \<Longrightarrow> disconnect_loop sid rs = (None, rs)"
proof (induction rs)
  case Nil
  show ?case by simp
next
  case (Cons a rs)
  obtain rid room where a: "a = (rid, room)" by (cases a)
  from Cons.prems have n: "sid \<notin> set (map socket (players room))" and r: "rooms_of rs sid = []"
    unfolding a by (auto simp: rooms_of_Cons split: if_splits)
  from n have "findIndex (\<lambda>q. socket q = sid) (players room) = None"
    by (auto simp: findIndex_None)
  with Cons.IH [OF r] show ?case unfolding a by simp
qed

lemma disconnect_loop_first:
  assumes "distinct (map fst rs)"
    and "rooms_of rs sid = rid # others"
  shows "\<exists>room i. map_of rs rid = Some room
           \<and> findIndex (\<lambda>q. socket q = sid) (players room) = Some i
           \<and> disconnect_loop sid rs =
               (Some rid, map_set rs rid (room\<lparr>players := splice1 i (players room)\<rparr>))"
  using assms
proof (induction rs)
  case Nil
  then show ?case by simp
next
  case (Cons a rs)
  obtain k room where a: "a = (k, room)" by (cases a)
  show ?case
  proof (cases "findIndex (\<lambda>q. socket q = sid) (players room)")
    case None
    then have n: "sid \<notin> set (map socket (players room))"
      by (auto simp: findIndex_None)
    with Cons.prems(2) have r: "rooms_of rs sid = rid # others"
      unfolding a by (simp add: rooms_of_Cons)
    then have "rid \<in> set (map fst rs)" using rooms_of_keys [of rs sid] by auto
    with Cons.prems(1) have ne: "k \<noteq> rid" unfolding a by auto
    from Cons.prems(1) have "distinct (map fst rs)" by simp
    from Cons.IH [OF this r] obtain room' i where
      "map_of rs rid = Some room'"
      "findIndex (\<lambda>q. socket q = sid) (players room') = Some i"
      "disconnect_loop sid rs =
         (Some rid, map_set rs rid (room'\<lparr>players := splice1 i (players room')\<rparr>))"
      by blast
    with None ne show ?thesis unfolding a by simp
  next
    case (Some i)
    then have "sid \<in> set (map socket (players room))"
      using findIndex_member [of sid "players room"] by simp
    with Cons.prems(2) have "k = rid" unfolding a by (simp add: rooms_of_Cons)
    with Some show ?thesis unfolding a by simp
  qed
qed

lemma map_fst_disconnect_loop:
  "disconnect_loop sid rs = (found, rs') \<Longrightarrow> map fst rs' = map fst rs"
  by (induction rs arbitrary: found rs') (auto split: option.splits prod.splits)

lemma disconnect_loop_room:
  "disconnect_loop sid rs = (found, rs') \<Longrightarrow> map_of rs k = Some room \<Longrightarrow>
   \<exists>room'. map_of rs' k = Some room' \<and>
     (players room' = players room \<or>
      (\<exists>i<length (players room). socket (players room ! i) = sid
          \<and> players room' = splice1 i (players room)))"
proof (induction rs arbitrary: found rs')
  case Nil
  then show ?case by simp
next
  case (Cons a rs)
  obtain rid room0 where a: "a = (rid, room0)" by (cases a)
  show ?case
  proof (cases "findIndex (\<lambda>q. socket q = sid) (players room0)")
    case None
    obtain f r where l: "disconnect_loop sid rs = (f, r)" by (cases "disconnect_loop sid rs")
    with None Cons.prems(1) have rs': "rs' = (rid, room0) # r" unfolding a by simp
    show ?thesis
    proof (cases "rid = k")
      case True
      with Cons.prems(2) rs' show ?thesis unfolding a by simp
    next
      case False
      with Cons.prems(2) have "map_of rs k = Some room" unfolding a by simp
      from Cons.IH [OF l this] False rs' show ?thesis by simp
    qed
  next
    case (Some i)
    with Cons.prems(1) have rs': "rs' = (rid, room0\<lparr>players := splice1 i (players room0)\<rparr>) # rs"
      unfolding a by simp
    from findIndex_Some [OF Some] have i: "i < length (players room0)"
      "socket (players room0 ! i) = sid" by simp_all
    show ?thesis
    proof (cases "rid = k")
      case True
      with Cons.prems(2) rs' i show ?thesis unfolding a by auto
    next
      case False
      with Cons.prems(2) rs' show ?thesis unfolding a by simp
    qed
  qed
qed

lemma disconnect_cases:
  assumes "disconnect rs sid = Inr (rs', out)"
  shows "\<exists>found rs1. disconnect_loop sid rs = (found, rs1)
           \<and> (rs' = rs1 \<or> (\<exists>rid. rs' = map_delete rs1 rid))"
proof -
  obtain found rs1 where l: "disconnect_loop sid rs = (found, rs1)"
    by (cases "disconnect_loop sid rs")
  with assms have "rs' = rs1 \<or> (\<exists>rid. rs' = map_delete rs1 rid)"
    by (auto simp: disconnect_def split: option.splits if_splits)
  with l show ?thesis by blast
qed

lemma disconnect_room:
  assumes "disconnect rs sid = Inr (rs', out)"
    and "map_of rs k = Some room" and "map_of rs' k = Some room'"
  shows "players room' = players room \<or>
      (\<exists>i<length (players room). socket (players room ! i) = sid
          \<and> players room' = splice1 i (players room))"
proof -
  obtain found rs1 where l: "disconnect_loop sid rs = (found, rs1)"
    by (cases "disconnect_loop sid rs")
  from disconnect_loop_room [OF l assms(2)] obtain room1 where
    r1: "map_of rs1 k = Some room1"
      "players room1 = players room \<or>
      (\<exists>i<length (players room). socket (players room ! i) = sid
          \<and> players room1 = splice1 i (players room))"
    by blast
  from assms(1) l have "rs' = rs1 \<or> (\<exists>rid. rs' = map_delete rs1 rid)"
    by (auto simp: disconnect_def split: option.splits if_splits)
  with assms(3) r1(1) have "room' = room1"
    by (auto simp: map_of_map_delete split: if_splits)
  with r1(2) show ?thesis by simp
qed

subsection \<open>The flags across the handlers\<close>

text \<open>The flags \<^verbatim>\<open>ready\<close> of a room across each handler.\<close>

lemma createRoom_flags:
  assumes "createRoom gen rs sid pd = Inr (rs', out)"
    and "map_of rs k = Some room" and "map_of rs' k = Some room'" and "gen \<noteq> k"
  shows "flags_kept sid signal (players room) (players room')"
proof -
  from assms(1) obtain room1 where "rs' = map_set rs gen room1"
    by (auto simp: createRoom_def Let_def split: sum.splits)
  with assms(2-4) have "room' = room" by (simp add: map_of_map_set)
  then show ?thesis by (simp add: flags_kept_refl)
qed

lemma joinRoom_flags:
  assumes "joinRoom rs sid payload = Inr (rs', out)"
    and "map_of rs k = Some room" and "map_of rs' k = Some room'"
  shows "flags_kept sid signal (players room) (players room')"
proof -
  from joinRoom_cases [OF assms(1)] consider "rs' = rs"
    | rid room0 room1 pd where "rs' = map_set rs rid room1" "map_of rs rid = Some room0"
        "addPlayer room0 sid pd = Inr room1"
    by blast
  then show ?thesis
  proof cases
    case 1
    with assms(2,3) show ?thesis by (simp add: flags_kept_refl)
  next
    case 2
    show ?thesis
    proof (cases "k = rid")
      case True
      with 2 assms(2,3) have "room0 = room" "room1 = room'" by (simp_all add: map_of_map_set)
      with addPlayer_players [OF 2(3)] show ?thesis by (auto simp: flags_kept_append)
    next
      case False
      with 2 assms(2,3) have "room' = room" by (simp add: map_of_map_set)
      then show ?thesis by (simp add: flags_kept_refl)
    qed
  qed
qed

lemma set_base_position_flags:
  assumes "set_base_position rs sid payload = Inr (rs', out)"
    and "map_of rs k = Some room" and "map_of rs' k = Some room'"
  shows "flags_kept sid signal (players room) (players room')"
proof -
  from set_base_position_cases [OF assms(1)] consider "rs' = rs"
    | rid room0 i v where "map_of rs rid = Some room0"
        "rs' = map_set rs rid
           (room0\<lparr>players := (players room0)
              [i := (players room0 ! i)
                 \<lparr>playerData := (playerData (players room0 ! i))\<lparr>basePosition := v\<rparr>\<rparr>]\<rparr>)"
    by blast
  then show ?thesis
  proof cases
    case 1
    with assms(2,3) show ?thesis by (simp add: flags_kept_refl)
  next
    case 2
    show ?thesis
    proof (cases "k = rid")
      case True
      with 2 assms(2,3) show ?thesis by (auto simp: map_of_map_set flags_kept_base)
    next
      case False
      with 2 assms(2,3) have "room' = room" by (simp add: map_of_map_set)
      then show ?thesis by (simp add: flags_kept_refl)
    qed
  qed
qed

lemma player_ready_flags:
  assumes "player_ready rs sid payload = Inr (rs', out)"
    and "map_of rs k = Some room" and "map_of rs' k = Some room'"
  shows "flags_kept sid (\<exists>p. payload = Val p \<and> ready_roomId p = Val k)
           (players room) (players room')"
proof -
  from player_ready_cases [OF assms(1)] consider "rs' = rs"
    | p rid room0 where "payload = Val p" "ready_roomId p = Val rid" "map_of rs rid = Some room0"
        "rs' = map_set rs rid
           (case findIndex (\<lambda>q. socket q = sid) (players room0) of
              Some i \<Rightarrow>
                room0\<lparr>players := (players room0)
                  [i := (players room0 ! i)
                     \<lparr>playerData := (playerData (players room0 ! i))\<lparr>ready := True\<rparr>\<rparr>]\<rparr>
            | None \<Rightarrow> room0)"
    by blast
  then show ?thesis
  proof cases
    case 1
    with assms(2,3) show ?thesis by (simp add: flags_kept_refl)
  next
    case 2
    show ?thesis
    proof (cases "k = rid")
      case True
      show ?thesis
      proof (cases "findIndex (\<lambda>q. socket q = sid) (players room0)")
        case None
        with 2 True assms(2,3) have "room' = room" by (simp add: map_of_map_set)
        then show ?thesis by (simp add: flags_kept_refl)
      next
        case (Some i)
        with 2 True assms(2,3) have "room0 = room"
          "players room' = (players room)
                  [i := (players room ! i)
                     \<lparr>playerData := (playerData (players room ! i))\<lparr>ready := True\<rparr>\<rparr>]"
          by (auto simp: map_of_map_set)
        with Some 2(1,2) True flags_kept_ready [of sid "players room" i] show ?thesis
          by simp
      qed
    next
      case False
      with 2 assms(2,3) have "room' = room" by (simp add: map_of_map_set)
      then show ?thesis by (simp add: flags_kept_refl)
    qed
  qed
qed

lemma handle_flags:
  fixes rs :: "number rooms"
  assumes "handle rs sid ev = Inr (rs', out)"
    and "map_of rs k = Some room" and "map_of rs' k = Some room'"
    and "ev \<noteq> Ev_disconnect" and "\<forall>pd. ev \<noteq> Ev_createRoom k pd"
  shows "flags_kept sid (\<exists>p. ev = Ev_player_ready (Val p) \<and> ready_roomId p = Val k)
           (players room) (players room')"
proof (cases ev)
  case (Ev_createRoom gen pd)
  with assms show ?thesis by (auto intro: createRoom_flags)
next
  case (Ev_joinRoom payload)
  with assms show ?thesis by (auto intro: joinRoom_flags)
next
  case (Ev_set_base_position payload)
  with assms show ?thesis by (auto intro: set_base_position_flags)
next
  case (Ev_player_ready payload)
  with assms player_ready_flags [of rs sid payload rs' out k room room'] show ?thesis by simp
next
  case (Ev_update_block payload)
  with assms update_block_state [of rs sid payload rs' out] show ?thesis
    by (auto simp: flags_kept_refl)
next
  case (Ev_tower_collapsed payload)
  with assms tower_collapsed_state [of rs sid payload rs' out] show ?thesis
    by (auto simp: flags_kept_refl)
next
  case Ev_disconnect
  with assms show ?thesis by simp
qed

subsection \<open>Invariants of the table\<close>

text \<open>
  Two invariants of the table. The keys stay distinct, as the keys of a \<^verbatim>\<open>Map\<close> are, and
  the name of every player stays the identifier of its socket. Both hold of the empty
  table.
\<close>

lemma handle_keys:
  fixes rs :: "number rooms"
  assumes "handle rs sid ev = Inr (rs', out)"
  shows "(\<exists>k v. rs' = map_set rs k v) \<or>
         (\<exists>found rs1. disconnect_loop sid rs = (found, rs1)
            \<and> (rs' = rs1 \<or> (\<exists>rid. rs' = map_delete rs1 rid))) \<or> rs' = rs"
proof (cases ev)
  case (Ev_createRoom gen pd)
  with assms createRoom_cases [of gen rs sid pd rs' out] show ?thesis by auto
next
  case (Ev_joinRoom payload)
  with assms joinRoom_cases [of rs sid payload rs' out] show ?thesis by auto
next
  case (Ev_set_base_position payload)
  with assms set_base_position_cases [of rs sid payload rs' out] show ?thesis by auto
next
  case (Ev_player_ready payload)
  with assms player_ready_cases [of rs sid payload rs' out] show ?thesis by auto
next
  case (Ev_update_block payload)
  with assms update_block_state [of rs sid payload rs' out] show ?thesis by auto
next
  case (Ev_tower_collapsed payload)
  with assms tower_collapsed_state [of rs sid payload rs' out] show ?thesis by auto
next
  case Ev_disconnect
  with assms disconnect_cases [of rs sid rs' out] show ?thesis by auto
qed

lemma handle_distinct_keys:
  fixes rs :: "number rooms"
  assumes "handle rs sid ev = Inr (rs', out)" and "distinct (map fst rs)"
  shows "distinct (map fst rs')"
  using handle_keys [OF assms(1)] assms(2)
  by (auto simp: map_fst_map_set map_fst_map_delete dest: map_fst_disconnect_loop)

lemma run_distinct_keys:
  fixes rs :: "number rooms"
  shows "run rs evs = Inr (rs', out) \<Longrightarrow> distinct (map fst rs) \<Longrightarrow> distinct (map fst rs')"
proof (induction evs arbitrary: rs out)
  case Nil
  then show ?case by simp
next
  case (Cons a evs)
  obtain sid ev where a: "a = (sid, ev)" by (cases a)
  from Cons.prems(1) obtain rs1 out1 out2 where
    h: "handle rs sid ev = Inr (rs1, out1)" and r: "run rs1 evs = Inr (rs', out2)"
    unfolding a by (auto split: sum.splits prod.splits error.splits)
  from handle_distinct_keys [OF h Cons.prems(2)] Cons.IH [OF r] show ?case by simp
qed

lemma server_names_lookup:
  "server_names rs \<Longrightarrow> map_of rs rid = Some room \<Longrightarrow>
   list_all (\<lambda>q. name (playerData q) = socket q) (players room)"
  by (auto simp: server_names_def list_all_iff dest!: map_of_SomeD)

lemma server_names_map_set:
  "server_names rs \<Longrightarrow> list_all (\<lambda>q. name (playerData q) = socket q) (players room) \<Longrightarrow>
   server_names (map_set rs rid room)"
  unfolding server_names_def by (rule list_all_map_set) simp_all

lemma disconnect_loop_names:
  "disconnect_loop sid rs = (found, rs') \<Longrightarrow> server_names rs \<Longrightarrow> server_names rs'"
proof (induction rs arbitrary: found rs')
  case Nil
  then show ?case by simp
next
  case (Cons a rs)
  obtain rid room where a: "a = (rid, room)" by (cases a)
  from Cons.prems(2) have here: "list_all (\<lambda>q. name (playerData q) = socket q) (players room)"
    and rest: "server_names rs"
    unfolding a by (simp_all add: server_names_def)
  show ?case
  proof (cases "findIndex (\<lambda>q. socket q = sid) (players room)")
    case None
    obtain f r where l: "disconnect_loop sid rs = (f, r)" by (cases "disconnect_loop sid rs")
    with None Cons.prems(1) have "rs' = (rid, room) # r" unfolding a by simp
    with Cons.IH [OF l rest] here show ?thesis by (simp add: server_names_def)
  next
    case (Some i)
    with Cons.prems(1) have "rs' = (rid, room\<lparr>players := splice1 i (players room)\<rparr>) # rs"
      unfolding a by simp
    with rest list_all_splice1 [OF here] show ?thesis by (simp add: server_names_def)
  qed
qed

lemma handle_names:
  fixes rs :: "number rooms"
  assumes "handle rs sid ev = Inr (rs', out)" and "server_names rs"
  shows "server_names rs'"
proof (cases ev)
  case (Ev_createRoom gen pd)
  with assms(1) createRoom_cases [of gen rs sid pd rs' out] obtain room1 where
    r: "rs' = map_set rs gen room1" "addPlayer (Room gen) sid pd = Inr room1" by auto
  from addPlayer_names [OF r(2)] have "list_all (\<lambda>q. name (playerData q) = socket q) (players room1)"
    by (simp add: Room_def)
  with r(1) assms(2) show ?thesis by (simp add: server_names_map_set)
next
  case (Ev_joinRoom payload)
  with assms(1) joinRoom_cases [of rs sid payload rs' out] consider "rs' = rs"
    | rid room0 room1 pd where "rs' = map_set rs rid room1" "map_of rs rid = Some room0"
        "addPlayer room0 sid pd = Inr room1"
    by auto
  then show ?thesis
  proof cases
    case 1
    with assms(2) show ?thesis by simp
  next
    case 2
    from addPlayer_names [OF 2(3) server_names_lookup [OF assms(2) 2(2)]] 2(1) assms(2)
    show ?thesis by (simp add: server_names_map_set)
  qed
next
  case (Ev_set_base_position payload)
  with assms(1) set_base_position_cases [of rs sid payload rs' out] consider "rs' = rs"
    | rid room0 i v where "map_of rs rid = Some room0"
        "rs' = map_set rs rid
           (room0\<lparr>players := (players room0)
              [i := (players room0 ! i)
                 \<lparr>playerData := (playerData (players room0 ! i))\<lparr>basePosition := v\<rparr>\<rparr>]\<rparr>)"
    by auto
  then show ?thesis
  proof cases
    case 1
    with assms(2) show ?thesis by simp
  next
    case 2
    from list_all_update_data [OF server_names_lookup [OF assms(2) 2(1)]] 2(2) assms(2)
    show ?thesis by (simp add: server_names_map_set)
  qed
next
  case (Ev_player_ready payload)
  with assms(1) player_ready_cases [of rs sid payload rs' out] consider "rs' = rs"
    | rid room0 where "map_of rs rid = Some room0"
        "rs' = map_set rs rid
           (case findIndex (\<lambda>q. socket q = sid) (players room0) of
              Some i \<Rightarrow>
                room0\<lparr>players := (players room0)
                  [i := (players room0 ! i)
                     \<lparr>playerData := (playerData (players room0 ! i))\<lparr>ready := True\<rparr>\<rparr>]\<rparr>
            | None \<Rightarrow> room0)"
    by auto
  then show ?thesis
  proof cases
    case 1
    with assms(2) show ?thesis by simp
  next
    case 2
    from list_all_update_data [OF server_names_lookup [OF assms(2) 2(1)]] 2(2) assms(2)
      server_names_lookup [OF assms(2) 2(1)]
    show ?thesis by (auto simp: server_names_map_set split: option.splits)
  qed
next
  case (Ev_update_block payload)
  with assms update_block_state [of rs sid payload rs' out] show ?thesis by auto
next
  case (Ev_tower_collapsed payload)
  with assms tower_collapsed_state [of rs sid payload rs' out] show ?thesis by auto
next
  case Ev_disconnect
  with assms(1) disconnect_cases [of rs sid rs' out] obtain found rs1 where
    l: "disconnect_loop sid rs = (found, rs1)" "rs' = rs1 \<or> (\<exists>rid. rs' = map_delete rs1 rid)"
    by auto
  from disconnect_loop_names [OF l(1) assms(2)] l(2) show ?thesis
    by (auto simp: server_names_def list_all_map_delete)
qed

lemma run_names:
  fixes rs :: "number rooms"
  shows "run rs evs = Inr (rs', out) \<Longrightarrow> server_names rs \<Longrightarrow> server_names rs'"
proof (induction evs arbitrary: rs out)
  case Nil
  then show ?case by simp
next
  case (Cons a evs)
  obtain sid ev where a: "a = (sid, ev)" by (cases a)
  from Cons.prems(1) obtain rs1 out1 out2 where
    h: "handle rs sid ev = Inr (rs1, out1)" and r: "run rs1 evs = Inr (rs', out2)"
    unfolding a by (auto split: sum.splits prod.splits error.splits)
  from handle_names [OF h Cons.prems(2)] Cons.IH [OF r] show ?case by simp
qed

section \<open>The claims\<close>

subsection \<open>C1: the start of the game\<close>

text \<open>
  C1, as amended. \<^verbatim>\<open>player-ready\<close> for a room that exists and has a player marks the first
  entry of the sender ready, if the sender is a player of the room, and changes no other
  flag and no socket. It then evaluates \<^verbatim>\<open>allReady\<close>, whoever the sender is:
  \<^verbatim>\<open>allReady\<close> holds if and only if every player of the room is ready, whatever the
  number of players. When it holds the handler emits \<^verbatim>\<open>start-game\<close> and then a
  \<^verbatim>\<open>turn-update\<close> that names the first player of the room; otherwise it emits nothing.
\<close>

theorem player_ready_allReady:
  assumes "rooms_get rs (ready_roomId p) = Some (rid, room)"
    and "players room \<noteq> []"
  shows "\<exists>room'.
           map socket (players room') = map socket (players room)
         \<and> (\<forall>i<length (players room).
               ready (playerData (players room' ! i)) =
                 (ready (playerData (players room ! i))
                  \<or> findIndex (\<lambda>q. socket q = sid) (players room) = Some i))
         \<and> player_ready rs sid (Val p) =
             Inr (map_set rs rid room',
                  if list_all (\<lambda>q. ready (playerData q)) (players room')
                  then [Emit (Io_to (Val rid)) (StartGame (gameState room)),
                        Emit (Io_to (Val rid))
                          (TurnUpdate (name (playerData (hd (players room)))) rid)]
                  else [])"
proof (cases "findIndex (\<lambda>q. socket q = sid) (players room)")
  case None
  have "player_ready rs sid (Val p) =
          Inr (map_set rs rid room,
               if list_all (\<lambda>q. ready (playerData q)) (players room)
               then [Emit (Io_to (Val rid)) (StartGame (gameState room)),
                     Emit (Io_to (Val rid))
                       (TurnUpdate (name (playerData (hd (players room)))) rid)]
               else [])"
    using assms None
    by (cases "players room") (simp_all add: player_ready_def Let_def getState_def)
  with None show ?thesis by auto
next
  case (Some k)
  let ?ps = "players room"
  let ?room' = "room\<lparr>players := ?ps[k := (?ps ! k)\<lparr>playerData := (playerData (?ps ! k))\<lparr>ready := True\<rparr>\<rparr>]\<rparr>"
  from findIndex_Some [OF Some] have k: "k < length ?ps" by simp
  have ne: "players ?room' \<noteq> []" using assms(2) by simp
  have run: "player_ready rs sid (Val p) =
          Inr (map_set rs rid ?room',
               if list_all (\<lambda>q. ready (playerData q)) (players ?room')
               then [Emit (Io_to (Val rid)) (StartGame (gameState room)),
                     Emit (Io_to (Val rid))
                       (TurnUpdate (name (playerData (hd (players ?room')))) rid)]
               else [])"
    using assms(1) Some ne
    by (cases "players ?room'") (simp_all add: player_ready_def Let_def getState_def)
  have hd: "name (playerData (hd (players ?room'))) = name (playerData (hd ?ps))"
    using hd_name_update [OF assms(2)] by simp
  have sock: "map socket (players ?room') = map socket ?ps"
    using map_socket_update [OF k] by simp
  have flags: "\<forall>i<length ?ps.
      ready (playerData (players ?room' ! i)) =
        (ready (playerData (?ps ! i)) \<or> findIndex (\<lambda>q. socket q = sid) ?ps = Some i)"
    using k Some by (auto simp: nth_list_update)
  show ?thesis
    using run hd sock flags by (intro exI [of _ ?room']) simp
qed

text \<open>
  The witness is also the room with one player: its only player sends \<^verbatim>\<open>player-ready\<close>
  and the game starts.
\<close>

theorem player_ready_allReady_witness:
  "\<exists>room'. map socket (players room') = [''A'']
     \<and> ready (playerData (players room' ! 0))
     \<and> player_ready calibrated_room ''A'' (Val \<lparr>ready_roomId = Val ''r1''\<rparr>) =
         Inr (map_set calibrated_room ''r1'' room',
              [Emit (Io_to (Val ''r1'')) (StartGame []),
               Emit (Io_to (Val ''r1'')) (TurnUpdate ''A'' ''r1'')])"
proof -
  obtain room' :: "number room" where
    "map socket (players room') = map socket (players (snd (hd calibrated_room)))"
    "\<forall>i<length (players (snd (hd calibrated_room))).
       ready (playerData (players room' ! i)) =
         (ready (playerData (players (snd (hd calibrated_room)) ! i))
          \<or> findIndex (\<lambda>q. socket q = ''A'') (players (snd (hd calibrated_room))) = Some i)"
    "player_ready calibrated_room ''A'' (Val \<lparr>ready_roomId = Val ''r1''\<rparr>) =
       Inr (map_set calibrated_room ''r1'' room',
            if list_all (\<lambda>q. ready (playerData q)) (players room')
            then [Emit (Io_to (Val ''r1'')) (StartGame (gameState (snd (hd calibrated_room)))),
                  Emit (Io_to (Val ''r1''))
                    (TurnUpdate (name (playerData (hd (players (snd (hd calibrated_room)))))) ''r1'')]
            else [])"
    using player_ready_allReady
      [where rs = calibrated_room and p = "\<lparr>ready_roomId = Val ''r1''\<rparr>" and rid = "''r1''"
         and room = "snd (hd calibrated_room)" and sid = "''A''"]
    by (auto simp: calibrated_room_def)
  then show ?thesis
    by (intro exI [of _ room']) (auto simp: calibrated_room_def list_all_length)
qed

text \<open>
  The claim as it is written fails: in a room with one player, the \<^verbatim>\<open>player-ready\<close> of
  that player starts the game, and the specification's condition does not hold.
\<close>

theorem allReady_one_participant_counterexample:
  "\<exists>room'. player_ready calibrated_room ''A'' (Val \<lparr>ready_roomId = Val ''r1''\<rparr>) =
       Inr ([(''r1'', room')],
            [Emit (Io_to (Val ''r1'')) (StartGame []),
             Emit (Io_to (Val ''r1'')) (TurnUpdate ''A'' ''r1'')])
     \<and> length (players room') = 1 \<and> \<not> spec_allReady room'"
  by (simp add: player_ready_def calibrated_room_def Let_def getState_def spec_allReady_def)

subsection \<open>C2: the tracked objects\<close>

text \<open>
  C2. The claim fails on the code: the handler of \<^verbatim>\<open>update-block\<close> emits the relative
  change and never calls \<^verbatim>\<open>updateGameState\<close>, so \<^verbatim>\<open>gameState\<close> stays empty. In the room of
  \<^verbatim>\<open>A\<close> and \<^verbatim>\<open>B\<close>, after the successful update of \<^verbatim>\<open>obj1\<close> by \<^verbatim>\<open>A\<close> the table is unchanged, the
  \<^verbatim>\<open>start-game\<close> of a later \<^verbatim>\<open>player-ready\<close> carries no object, and
  \<^verbatim>\<open>updateGameState\<close> would have stored the object under \<^verbatim>\<open>obj1\<close>.
\<close>

theorem update_block_stores_nothing:
  "run two_players [(''A'', update_obj1),
                    (''B'', Ev_player_ready (Val \<lparr>ready_roomId = Val ''r1''\<rparr>))] =
     Inr (two_players,
          [Emit (Io_to (Val ''r1''))
             (UpdateBlockMsg ''r1''
                \<lparr>change_id = Val ''obj1'',
                 relativePosition = \<lparr>coord_x = js_integer 1, coord_y = js_integer 1, coord_z = js_integer 1\<rparr>,
                 change_quaternion = Undefined\<rparr>),
           Emit (Io_to (Val ''r1'')) (TurnUpdate ''B'' ''r1''),
           Emit (Io_to (Val ''r1'')) (StartGame []),
           Emit (Io_to (Val ''r1'')) (TurnUpdate ''A'' ''r1'')])
   \<and> map (\<lambda>(rid, room). gameState room) two_players = [[]]
   \<and> gameState (updateGameState (snd (hd two_players))
        \<lparr>change_id = Val ''obj1'',
         relativePosition = \<lparr>coord_x = js_integer 1, coord_y = js_integer 1, coord_z = js_integer 1\<rparr>,
         change_quaternion = Undefined\<rparr>) =
       [(''obj1'', \<lparr>change_id = Val ''obj1'',
                    relativePosition = \<lparr>coord_x = js_integer 1, coord_y = js_integer 1, coord_z = js_integer 1\<rparr>,
                    change_quaternion = Undefined\<rparr>)]"
  by (simp add: two_players_def update_obj1_def update_block_def player_ready_def Let_def
      getState_def updateGameState_def js_minus_1_0)

subsection \<open>C3: the rotation of the turn\<close>

text \<open>
  C3, as amended. The handler of \<^verbatim>\<open>update-block\<close> keeps no turn and rejects no update
  for being out of turn: it announces the player after the sender. So, in a room of two
  players with different sockets and set base positions, when the updates are sent in
  turn (the first by the first player, the next by the second, and so on), every update
  succeeds and the \<^verbatim>\<open>turn-update\<close> after \<open>k\<close> updates names the player \<open>k mod 2\<close> of the
  room.
\<close>

theorem turn_update_alternating_senders:
  fixes rs :: "number rooms"
  assumes "map_of rs rid = Some room"
    and "players room = [p0, p1]"
    and "socket p0 \<noteq> socket p1"
    and "basePosition (playerData p0) = Val b0"
    and "basePosition (playerData p1) = Val b1"
    and "\<forall>j<length evs. fst (evs ! j) = socket (players room ! (j mod 2))
                       \<and> is_update_for rid (snd (evs ! j))"
  shows "\<exists>out. run rs evs = Inr (rs, out) \<and> length (turn_updates out) = length evs \<and>
           (\<forall>j<length evs.
              turn_updates out ! j = name (playerData (players room ! (Suc j mod 2))))"
proof -
  have all: "\<forall>e\<in>set evs. is_update_for rid (snd e) \<and> (fst e = socket p0 \<or> fst e = socket p1)"
  proof
    fix e assume "e \<in> set evs"
    then obtain j where j: "j < length evs" "evs ! j = e" by (auto simp: in_set_conv_nth)
    have "j mod 2 = 0 \<or> j mod 2 = 1" by arith
    with assms(2,6) j show "is_update_for rid (snd e) \<and> (fst e = socket p0 \<or> fst e = socket p1)"
      by auto
  qed
  from run_updates_two_players [OF assms(1-5) all]
  obtain out where out: "run rs evs = Inr (rs, out)"
    "turn_updates out =
       map (\<lambda>e. if fst e = socket p0 then name (playerData p1) else name (playerData p0)) evs"
    by blast
  have "turn_updates out ! j = name (playerData (players room ! (Suc j mod 2)))"
    if j: "j < length evs" for j
  proof -
    have "j mod 2 = 0 \<or> j mod 2 = 1" by arith
    then show ?thesis
    proof
      assume z: "j mod 2 = 0"
      then have "Suc j mod 2 = 1" by arith
      with z assms(2,6) j out(2) show ?thesis by simp
    next
      assume o: "j mod 2 = 1"
      then have "Suc j mod 2 = 0" by arith
      with o assms(2,3,6) j out(2) show ?thesis by simp
    qed
  qed
  with out show ?thesis by simp
qed

theorem turn_update_alternating_senders_witness:
  "\<exists>out. run two_players [(''A'', update_obj1), (''B'', update_obj1), (''A'', update_obj1)] =
            Inr (two_players, out)
     \<and> turn_updates out = [''B'', ''A'', ''B'']"
proof -
  let ?evs = "[(''A'', update_obj1), (''B'', update_obj1), (''A'', update_obj1)]"
  have cases3: "\<And>j::nat. j < 3 \<Longrightarrow> j = 0 \<or> j = 1 \<or> j = 2" by arith
  have "\<exists>out. run two_players ?evs = Inr (two_players, out)
      \<and> length (turn_updates out) = length ?evs
      \<and> (\<forall>j<length ?evs.
            turn_updates out ! j =
              name (playerData (players (snd (hd two_players)) ! (Suc j mod 2))))"
    by (rule turn_update_alternating_senders
          [where rid = "''r1''" and room = "snd (hd two_players)"
             and ?p0.0 = "hd (players (snd (hd two_players)))"
             and ?p1.0 = "hd (tl (players (snd (hd two_players))))"
             and ?b0.0 = "\<lparr>coord_x = js_integer 0, coord_y = js_integer 0, coord_z = js_integer 0\<rparr>"
             and ?b1.0 = "\<lparr>coord_x = js_integer 1, coord_y = js_integer 2, coord_z = js_integer 3\<rparr>"])
       (auto simp: two_players_def update_obj1_def less_Suc_eq)
  then obtain out where out: "run two_players ?evs = Inr (two_players, out)"
    "length (turn_updates out) = 3"
    "\<forall>j<3. turn_updates out ! j =
        name (playerData (players (snd (hd two_players)) ! (Suc j mod 2)))"
    by auto
  from out(3) have "turn_updates out ! 0 = ''B''" "turn_updates out ! 1 = ''A''"
    "turn_updates out ! 2 = ''B''"
    by (simp_all add: two_players_def)
  with out(2) have "turn_updates out = [''B'', ''A'', ''B'']"
    by (auto simp: list_eq_iff_nth_eq dest!: cases3)
  with out(1) show ?thesis by blast
qed

text \<open>
  The claim as it is written fails for updates in any order: when \<^verbatim>\<open>A\<close>, the first player,
  sends two updates in a row, both succeed and both announce \<^verbatim>\<open>B\<close>, while the player
  \<open>2 mod 2\<close> of the room is \<^verbatim>\<open>A\<close>.
\<close>

theorem round_robin_counterexample:
  "\<exists>out. run two_players [(''A'', update_obj1), (''A'', update_obj1)] = Inr (two_players, out)
     \<and> turn_updates out = [''B'', ''B'']
     \<and> name (playerData (players (snd (hd two_players)) ! (2 mod 2))) = ''A''"
  by (simp add: two_players_def update_obj1_def update_block_def Let_def)

subsection \<open>C4: payloads with missing fields\<close>

text \<open>
  C4, as amended. The handlers do not validate a payload. A payload that is an object
  whose \<^verbatim>\<open>roomId\<close> is absent or \<^verbatim>\<open>null\<close> finds no room: \<^verbatim>\<open>joinRoom\<close>,
  \<^verbatim>\<open>set-base-position\<close>, \<^verbatim>\<open>player-ready\<close> and \<^verbatim>\<open>tower-collapsed\<close> answer the sender with
  \<^verbatim>\<open>Room not found\<close>, \<^verbatim>\<open>update-block\<close> does nothing, and the table is unchanged.
\<close>

theorem absent_roomId_not_found:
  fixes rs :: "number rooms"
  assumes "r = Undefined \<or> r = Null"
  shows "handle rs sid (Ev_joinRoom (Val \<lparr>join_roomId = r, join_playerData = pd\<rparr>)) =
           Inr (rs, [Emit Socket_emit (RoomError ''Room not found'')])
       \<and> handle rs sid (Ev_set_base_position (Val \<lparr>base_roomId = r, base_position = v\<rparr>)) =
           Inr (rs, [Emit Socket_emit (RoomError ''Room not found'')])
       \<and> handle rs sid (Ev_player_ready (Val \<lparr>ready_roomId = r\<rparr>)) =
           Inr (rs, [Emit Socket_emit (RoomError ''Room not found'')])
       \<and> handle rs sid (Ev_tower_collapsed (Val \<lparr>collapse_roomId = r, collapse_playerId = w\<rparr>)) =
           Inr (rs, [Emit Socket_emit (RoomError ''Room not found'')])
       \<and> handle rs sid (Ev_update_block (Val \<lparr>update_roomId = r, update_blockData = b\<rparr>)) =
           Inr (rs, [])"
  using assms
  by (auto simp: joinRoom_def set_base_position_def player_ready_def tower_collapsed_def
      update_block_def Let_def)

theorem absent_roomId_not_found_witness:
  "handle two_players ''A'' (Ev_joinRoom (Val \<lparr>join_roomId = Undefined, join_playerData = Undefined\<rparr>)) =
           Inr (two_players, [Emit Socket_emit (RoomError ''Room not found'')])
   \<and> handle two_players ''A'' (Ev_set_base_position (Val \<lparr>base_roomId = Undefined, base_position = Undefined\<rparr>)) =
           Inr (two_players, [Emit Socket_emit (RoomError ''Room not found'')])
   \<and> handle two_players ''A'' (Ev_player_ready (Val \<lparr>ready_roomId = Undefined\<rparr>)) =
           Inr (two_players, [Emit Socket_emit (RoomError ''Room not found'')])
   \<and> handle two_players ''A'' (Ev_tower_collapsed (Val \<lparr>collapse_roomId = Undefined, collapse_playerId = Undefined\<rparr>)) =
           Inr (two_players, [Emit Socket_emit (RoomError ''Room not found'')])
   \<and> handle two_players ''A'' (Ev_update_block (Val \<lparr>update_roomId = Undefined, update_blockData = Undefined\<rparr>)) =
           Inr (two_players, [])"
  using absent_roomId_not_found [where r = Undefined and rs = two_players and sid = "''A''"
      and pd = Undefined and v = Undefined and w = Undefined and b = Undefined]
  by simp

text \<open>
  The claim as it is written fails: an \<^verbatim>\<open>update-block\<close> of a player with a base position
  throws a \<^verbatim>\<open>TypeError\<close> when \<^verbatim>\<open>blockData\<close> or its \<^verbatim>\<open>position\<close> is missing, and so does
  a \<^verbatim>\<open>joinRoom\<close> without a payload.
\<close>

theorem malformed_payload_counterexample:
  "handle two_players ''A''
     (Ev_update_block (Val \<lparr>update_roomId = Val ''r1'', update_blockData = Undefined\<rparr>)) =
     Inl (TypeError [])
   \<and> handle two_players ''A''
     (Ev_update_block
        (Val \<lparr>update_roomId = Val ''r1'',
              update_blockData =
                Val \<lparr>block_id = Val ''obj1'', position = Undefined, quaternion = Undefined\<rparr>\<rparr>)) =
     Inl (TypeError [])
   \<and> handle two_players ''A'' (Ev_joinRoom Undefined) = Inl (TypeError [])"
  by (simp add: two_players_def update_block_def joinRoom_def)

subsection \<open>C5: what a failure sends\<close>

text \<open>
  C5, as amended. Each of the following failures leaves the table as it is and emits at
  most one message, to the sender alone. When the room is not found, \<^verbatim>\<open>joinRoom\<close>,
  \<^verbatim>\<open>set-base-position\<close>, \<^verbatim>\<open>player-ready\<close> and \<^verbatim>\<open>tower-collapsed\<close> emit one \<^verbatim>\<open>roomError\<close>
  (\<^verbatim>\<open>Room not found\<close>) to the sender; when the room has two players, \<^verbatim>\<open>joinRoom\<close> emits
  one \<^verbatim>\<open>roomError\<close> (\<^verbatim>\<open>Room is full\<close>) to the sender. The failures of \<^verbatim>\<open>update-block\<close>
  (room not found, sender not a player of the room, base position not set) and a
  \<^verbatim>\<open>set-base-position\<close> of a socket that is not a player of the room emit nothing at all:
  they are written to the log of the server only.
\<close>

theorem failures_reported:
  fixes rs :: "number rooms"
  shows "(rooms_get rs r = None \<longrightarrow>
            joinRoom rs sid (Val \<lparr>join_roomId = r, join_playerData = pd\<rparr>) =
              Inr (rs, [Emit Socket_emit (RoomError ''Room not found'')])
          \<and> set_base_position rs sid (Val \<lparr>base_roomId = r, base_position = v\<rparr>) =
              Inr (rs, [Emit Socket_emit (RoomError ''Room not found'')])
          \<and> player_ready rs sid (Val \<lparr>ready_roomId = r\<rparr>) =
              Inr (rs, [Emit Socket_emit (RoomError ''Room not found'')])
          \<and> tower_collapsed rs sid (Val \<lparr>collapse_roomId = r, collapse_playerId = w\<rparr>) =
              Inr (rs, [Emit Socket_emit (RoomError ''Room not found'')])
          \<and> update_block rs sid (Val \<lparr>update_roomId = r, update_blockData = b\<rparr>) = Inr (rs, []))
       \<and> (rooms_get rs r = Some (rid, room) \<and> length (players room) = 2 \<longrightarrow>
            joinRoom rs sid (Val \<lparr>join_roomId = r, join_playerData = pd\<rparr>) =
              Inr (rs, [Emit Socket_emit (RoomError ''Room is full'')]))
       \<and> (rooms_get rs r = Some (rid, room) \<and> sid \<notin> socket ` set (players room) \<longrightarrow>
            update_block rs sid (Val \<lparr>update_roomId = r, update_blockData = b\<rparr>) = Inr (rs, [])
          \<and> set_base_position rs sid (Val \<lparr>base_roomId = r, base_position = v\<rparr>) = Inr (rs, []))
       \<and> (rooms_get rs r = Some (rid, room)
            \<and> find (\<lambda>q. socket q = sid) (players room) = Some player
            \<and> (basePosition (playerData player) = Undefined
                \<or> basePosition (playerData player) = Null) \<longrightarrow>
            update_block rs sid (Val \<lparr>update_roomId = r, update_blockData = b\<rparr>) = Inr (rs, []))"
proof (intro conjI impI)
  assume "rooms_get rs r = Some (rid, room) \<and> sid \<notin> socket ` set (players room)"
  then have g: "rooms_get rs r = Some (rid, room)"
    and n: "\<forall>q\<in>set (players room). socket q \<noteq> sid" by auto
  from n have "find (\<lambda>q. socket q = sid) (players room) = None"
    by (simp add: find_None_iff)
  with g show "update_block rs sid (Val \<lparr>update_roomId = r, update_blockData = b\<rparr>) = Inr (rs, [])"
    by (simp add: update_block_def)
  from n have "findIndex (\<lambda>q. socket q = sid) (players room) = None"
    by (simp add: findIndex_None)
  with g show "set_base_position rs sid (Val \<lparr>base_roomId = r, base_position = v\<rparr>) = Inr (rs, [])"
    by (simp add: set_base_position_def)
qed (auto simp: joinRoom_def set_base_position_def player_ready_def tower_collapsed_def
      update_block_def isFull_def Let_def)

theorem failures_reported_witness:
  "joinRoom two_players ''C'' (Val \<lparr>join_roomId = Val ''zz'', join_playerData = Undefined\<rparr>) =
     Inr (two_players, [Emit Socket_emit (RoomError ''Room not found'')])
   \<and> joinRoom two_players ''C'' (Val \<lparr>join_roomId = Val ''r1'', join_playerData = Undefined\<rparr>) =
     Inr (two_players, [Emit Socket_emit (RoomError ''Room is full'')])
   \<and> update_block two_players ''C''
       (Val \<lparr>update_roomId = Val ''r1'', update_blockData = Undefined\<rparr>) =
     Inr (two_players, [])
   \<and> update_block fresh_room ''A''
       (Val \<lparr>update_roomId = Val ''r1'', update_blockData = Undefined\<rparr>) =
     Inr (fresh_room, [])"
proof -
  have "rooms_get two_players (Val ''zz'') = None"
    by (simp add: two_players_def)
  with failures_reported [where rs = two_players and r = "Val ''zz''" and sid = "''C''"
      and pd = Undefined]
  have a: "joinRoom two_players ''C'' (Val \<lparr>join_roomId = Val ''zz'', join_playerData = Undefined\<rparr>) =
     Inr (two_players, [Emit Socket_emit (RoomError ''Room not found'')])"
    by blast
  have g: "rooms_get two_players (Val ''r1'') = Some (''r1'', snd (hd two_players))"
    "length (players (snd (hd two_players))) = 2"
    "''C'' \<notin> socket ` set (players (snd (hd two_players)))"
    by (simp_all add: two_players_def)
  from g failures_reported [where rs = two_players and r = "Val ''r1''" and sid = "''C''"
      and pd = Undefined and rid = "''r1''" and room = "snd (hd two_players)" and b = Undefined]
  have b: "joinRoom two_players ''C'' (Val \<lparr>join_roomId = Val ''r1'', join_playerData = Undefined\<rparr>) =
     Inr (two_players, [Emit Socket_emit (RoomError ''Room is full'')])"
    and c: "update_block two_players ''C''
       (Val \<lparr>update_roomId = Val ''r1'', update_blockData = Undefined\<rparr>) =
     Inr (two_players, [])"
    by blast+
  have f: "rooms_get fresh_room (Val ''r1'') = Some (''r1'', snd (hd fresh_room))"
    "find (\<lambda>q. socket q = ''A'') (players (snd (hd fresh_room))) =
       Some (hd (players (snd (hd fresh_room))))"
    "basePosition (playerData (hd (players (snd (hd fresh_room))))) = Undefined"
    by (simp_all add: fresh_room_def)
  from f failures_reported [where rs = fresh_room and r = "Val ''r1''" and sid = "''A''"
      and rid = "''r1''" and room = "snd (hd fresh_room)" and b = Undefined
      and player = "hd (players (snd (hd fresh_room)))"]
  have d: "update_block fresh_room ''A''
       (Val \<lparr>update_roomId = Val ''r1'', update_blockData = Undefined\<rparr>) =
     Inr (fresh_room, [])"
    by blast
  from a b c d show ?thesis by blast
qed

text \<open>
  The claim as it is written fails: an \<^verbatim>\<open>update-block\<close> of \<^verbatim>\<open>C\<close>, which is not a player of the
  room, and one of \<^verbatim>\<open>A\<close> before it has set a base position, send no error message to the
  sender.
\<close>

theorem update_failure_counterexample:
  "handle two_players ''C'' update_obj1 = Inr (two_players, [])
   \<and> handle fresh_room ''A'' update_obj1 = Inr (fresh_room, [])"
  by (simp add: two_players_def fresh_room_def update_obj1_def update_block_def)

subsection \<open>C6: the identifier of a new room\<close>

text \<open>
  C6, as amended. \<^verbatim>\<open>createRoom\<close> stores the new room under the generated identifier
  without looking for it in the table. When the generated identifier is not the one of a
  live room, the new room, with the creator as its only player, is added at the end of the
  table and every live room stays registered as it was.
\<close>

theorem createRoom_fresh_id:
  assumes "map_of rs gen = None"
    and "pd \<noteq> Null"
  shows "\<exists>room. createRoom gen rs sid pd =
             Inr (rs @ [(gen, room)], [Join gen, Emit Socket_emit (RoomCreated gen)])
           \<and> roomId room = gen
           \<and> map socket (players room) = [sid]
           \<and> (\<forall>k room'. map_of rs k = Some room' \<longrightarrow> map_of (rs @ [(gen, room)]) k = Some room')"
  using assms
  by (auto simp: createRoom_def Let_def addPlayer_default addPlayer_Inr Room_def map_set_fresh)

theorem createRoom_fresh_id_witness:
  "\<exists>room. createRoom ''r2'' two_players ''C'' Undefined =
             Inr (two_players @ [(''r2'', room)], [Join ''r2'', Emit Socket_emit (RoomCreated ''r2'')])
           \<and> roomId room = ''r2''
           \<and> map socket (players room) = [''C'']
           \<and> map_of (two_players @ [(''r2'', room)]) ''r1'' = map_of two_players ''r1''"
proof -
  have "map_of two_players ''r2'' = None" by (simp add: two_players_def)
  from createRoom_fresh_id [OF this, where pd = Undefined and sid = "''C''"]
  obtain room where r: "createRoom ''r2'' two_players ''C'' Undefined =
             Inr (two_players @ [(''r2'', room)], [Join ''r2'', Emit Socket_emit (RoomCreated ''r2'')])"
    "roomId room = ''r2''" "map socket (players room) = [''C'']"
    by auto
  then show ?thesis
    by (intro exI [of _ room]) (simp add: two_players_def)
qed

text \<open>
  The claim as it is written fails: when the generated identifier is the one of the live
  room of \<^verbatim>\<open>A\<close> and \<^verbatim>\<open>B\<close>, the identifier is not generated again and the new room, with \<^verbatim>\<open>C\<close>
  alone, replaces the live one.
\<close>

theorem createRoom_collision_counterexample:
  "\<exists>room. createRoom ''r1'' two_players ''C'' Undefined =
             Inr ([(''r1'', room)], [Join ''r1'', Emit Socket_emit (RoomCreated ''r1'')])
           \<and> map socket (players room) = [''C'']
           \<and> map_of two_players ''r1'' \<noteq> Some room"
  by (simp add: createRoom_def Let_def addPlayer_def Room_def empty_object_def two_players_def)

subsection \<open>C7: membership and departure\<close>

text \<open>
  C7, as amended. The server does not keep a socket from being a player of several rooms,
  or twice of one room; \<^verbatim>\<open>disconnect\<close> handles the first room that has the socket, and
  there its first entry. When the socket is a player of no room, \<^verbatim>\<open>disconnect\<close> changes
  nothing and emits nothing. When the socket is a player of exactly one room, once, and
  the identifier of the room is not the empty string, \<^verbatim>\<open>disconnect\<close> removes the socket
  from the room and leaves every other room as it was; the room is deleted exactly when
  no player is left, and otherwise the other players are told \<^verbatim>\<open>playerDisconnected\<close>.
\<close>

theorem disconnect_departure:
  fixes rs :: "'n rooms"
  shows "(rooms_of rs sid = [] \<longrightarrow> disconnect rs sid = Inr (rs, []))
       \<and> (distinct (map fst rs) \<and> rooms_of rs sid = [rid] \<and> map_of rs rid = Some room
            \<and> length (filter (\<lambda>q. socket q = sid) (players room)) = 1 \<and> rid \<noteq> [] \<longrightarrow>
          (\<exists>rs' out. disconnect rs sid = Inr (rs', out)
             \<and> rooms_of rs' sid = []
             \<and> (\<forall>k. k \<noteq> rid \<longrightarrow> map_of rs' k = map_of rs k)
             \<and> (if filter (\<lambda>q. socket q \<noteq> sid) (players room) = []
                 then map_of rs' rid = None \<and> out = []
                 else map_of rs' rid =
                        Some (room\<lparr>players := filter (\<lambda>q. socket q \<noteq> sid) (players room)\<rparr>)
                      \<and> out = [Emit (Socket_to rid) (PlayerDisconnected sid)])))"
proof (intro conjI impI)
  assume "rooms_of rs sid = []"
  then show "disconnect rs sid = Inr (rs, [])"
    by (simp add: disconnect_def disconnect_loop_none)
next
  assume h: "distinct (map fst rs) \<and> rooms_of rs sid = [rid] \<and> map_of rs rid = Some room
            \<and> length (filter (\<lambda>q. socket q = sid) (players room)) = 1 \<and> rid \<noteq> []"
  let ?ps' = "filter (\<lambda>q. socket q \<noteq> sid) (players room)"
  let ?room' = "room\<lparr>players := ?ps'\<rparr>"
  from h have d: "distinct (map fst rs)" and m: "rooms_of rs sid = [rid]"
    and g: "map_of rs rid = Some room" by simp_all
  from disconnect_loop_first [OF d m] g obtain i where
    i: "findIndex (\<lambda>q. socket q = sid) (players room) = Some i"
    and loop: "disconnect_loop sid rs =
        (Some rid, map_set rs rid (room\<lparr>players := splice1 i (players room)\<rparr>))"
    by auto
  from h have "length (filter (\<lambda>q. socket q = sid) (players room)) = 1" by simp
  from splice1_filter [OF i this] have sp: "splice1 i (players room) = ?ps'" .
  have gone: "sid \<notin> set (map socket (players ?room'))" by auto
  have r1: "rooms_of (map_set rs rid ?room') sid = []"
    using rooms_of_map_set [OF g gone d] m by simp
  show "\<exists>rs' out. disconnect rs sid = Inr (rs', out)
             \<and> rooms_of rs' sid = []
             \<and> (\<forall>k. k \<noteq> rid \<longrightarrow> map_of rs' k = map_of rs k)
             \<and> (if ?ps' = []
                 then map_of rs' rid = None \<and> out = []
                 else map_of rs' rid = Some ?room'
                      \<and> out = [Emit (Socket_to rid) (PlayerDisconnected sid)])"
  proof (cases "?ps' = []")
    case True
    have "disconnect rs sid = Inr (map_delete (map_set rs rid ?room') rid, [])"
      using h loop sp True by (simp add: disconnect_def map_of_map_set)
    moreover have "rooms_of (map_delete (map_set rs rid ?room') rid) sid = []"
      using r1 by (simp add: rooms_of_map_delete)
    ultimately show ?thesis
      using True by (simp add: map_of_map_delete map_of_map_set)
  next
    case False
    have "disconnect rs sid =
            Inr (map_set rs rid ?room', [Emit (Socket_to rid) (PlayerDisconnected sid)])"
      using h loop sp False by (simp add: disconnect_def map_of_map_set)
    then show ?thesis
      using False r1 by (simp add: map_of_map_set)
  qed
qed

theorem disconnect_departure_witness:
  "disconnect two_players ''C'' = Inr (two_players, [])
   \<and> (\<exists>rs' room'. disconnect two_players ''A'' =
                      Inr (rs', [Emit (Socket_to ''r1'') (PlayerDisconnected ''A'')])
         \<and> rooms_of rs' ''A'' = []
         \<and> map_of rs' ''r1'' = Some room' \<and> map socket (players room') = [''B''])
   \<and> (\<exists>rs'. disconnect fresh_room ''A'' = Inr (rs', [])
         \<and> rooms_of rs' ''A'' = [] \<and> map_of rs' ''r1'' = None)"
proof -
  have a: "disconnect two_players ''C'' = Inr (two_players, [])"
    using disconnect_departure [where rs = two_players and sid = "''C''"]
    by (simp add: two_players_def rooms_of_def)
  have "distinct (map fst two_players) \<and> rooms_of two_players ''A'' = [''r1'']
      \<and> map_of two_players ''r1'' = Some (snd (hd two_players))
      \<and> length (filter (\<lambda>q. socket q = ''A'') (players (snd (hd two_players)))) = 1
      \<and> ''r1'' \<noteq> []"
    by (simp add: two_players_def rooms_of_def)
  with disconnect_departure [where rs = two_players and sid = "''A''" and rid = "''r1''"
      and room = "snd (hd two_players)"]
  obtain rs' out where b: "disconnect two_players ''A'' = Inr (rs', out)"
    "rooms_of rs' ''A'' = []"
    "if filter (\<lambda>q. socket q \<noteq> ''A'') (players (snd (hd two_players))) = []
     then map_of rs' ''r1'' = None \<and> out = []
     else map_of rs' ''r1'' =
            Some ((snd (hd two_players))
                    \<lparr>players := filter (\<lambda>q. socket q \<noteq> ''A'') (players (snd (hd two_players)))\<rparr>)
          \<and> out = [Emit (Socket_to ''r1'') (PlayerDisconnected ''A'')]"
    by blast
  from b(3) have b3: "out = [Emit (Socket_to ''r1'') (PlayerDisconnected ''A'')]"
    "\<exists>room'. map_of rs' ''r1'' = Some room' \<and> map socket (players room') = [''B'']"
    by (simp_all add: two_players_def)
  have "distinct (map fst fresh_room) \<and> rooms_of fresh_room ''A'' = [''r1'']
      \<and> map_of fresh_room ''r1'' = Some (snd (hd fresh_room))
      \<and> length (filter (\<lambda>q. socket q = ''A'') (players (snd (hd fresh_room)))) = 1
      \<and> ''r1'' \<noteq> []"
    by (simp add: fresh_room_def rooms_of_def)
  with disconnect_departure [where rs = fresh_room and sid = "''A''" and rid = "''r1''"
      and room = "snd (hd fresh_room)"]
  obtain rs'' out' where c: "disconnect fresh_room ''A'' = Inr (rs'', out')"
    "rooms_of rs'' ''A'' = []"
    "if filter (\<lambda>q. socket q \<noteq> ''A'') (players (snd (hd fresh_room))) = []
     then map_of rs'' ''r1'' = None \<and> out' = []
     else map_of rs'' ''r1'' =
            Some ((snd (hd fresh_room))
                    \<lparr>players := filter (\<lambda>q. socket q \<noteq> ''A'') (players (snd (hd fresh_room)))\<rparr>)
          \<and> out' = [Emit (Socket_to ''r1'') (PlayerDisconnected ''A'')]"
    by blast
  from c(3) have c3: "map_of rs'' ''r1'' = None" "out' = []"
    by (simp_all add: fresh_room_def)
  from a b(1,2) b3 c(1,2) c3 show ?thesis by auto
qed

text \<open>
  The claim as it is written fails: a socket that creates two rooms is a player of both,
  and when it disconnects it is removed from the first one only.
\<close>

theorem two_memberships_counterexample:
  "\<exists>rs out rs' out'.
     run ([] :: number rooms) [(''A'', Ev_createRoom ''r1'' Undefined),
                            (''A'', Ev_createRoom ''r2'' Undefined)] = Inr (rs, out)
     \<and> rooms_of rs ''A'' = [''r1'', ''r2'']
     \<and> handle rs ''A'' Ev_disconnect = Inr (rs', out')
     \<and> rooms_of rs' ''A'' = [''r2'']"
  by (simp add: createRoom_def Room_def addPlayer_def empty_object_def Let_def rooms_of_def
      disconnect_def splice1_def)

subsection \<open>C8: the relative position\<close>

text \<open>
  C8, as amended. When an \<^verbatim>\<open>update-block\<close> passes the checks of the handler (the room
  exists, the sender is a player of it, its base position \<open>(ox, oy, oz)\<close> is set, the
  block and its position \<open>(px, py, pz)\<close> are present), the first message the handler emits
  is the \<^verbatim>\<open>update-block\<close> to the room, and its relative position is, component by
  component, the binary64 difference of the position and the base position: the exact
  difference, rounded. A component is exactly the difference whenever its two operands
  are finite binary64 values whose exact difference is a binary64 value. The witness is
  the example of the specification: base \<open>(1, 2, 3)\<close> and position \<open>(4, 6, 8)\<close> give
  \<open>(3, 4, 5)\<close>.
\<close>

theorem update_block_relative_position:
  assumes "rooms_get rs (update_roomId p) = Some (rid, room)"
    and "find (\<lambda>q. socket q = sid) (players room) = Some player"
    and "basePosition (playerData player) = Val \<lparr>coord_x = ox, coord_y = oy, coord_z = oz\<rparr>"
    and "update_blockData p = Val bd"
    and "position bd = Val \<lparr>coord_x = px, coord_y = py, coord_z = pz\<rparr>"
  shows "\<exists>turn rel. update_block rs sid (Val p) =
           Inr (rs, Emit (Io_to (Val rid))
                      (UpdateBlockMsg rid
                         \<lparr>change_id = block_id bd,
                          relativePosition = rel,
                          change_quaternion = quaternion bd\<rparr>) # turn)
         \<and> rel = \<lparr>coord_x = js_minus px ox, coord_y = js_minus py oy, coord_z = js_minus pz oz\<rparr>
         \<and> (exact_difference px ox \<longrightarrow>
               is_finite (coord_x rel) \<and> units (coord_x rel) = units px - units ox)
         \<and> (exact_difference py oy \<longrightarrow>
               is_finite (coord_y rel) \<and> units (coord_y rel) = units py - units oy)
         \<and> (exact_difference pz oz \<longrightarrow>
               is_finite (coord_z rel) \<and> units (coord_z rel) = units pz - units oz)"
proof -
  let ?rel = "\<lparr>coord_x = js_minus px ox, coord_y = js_minus py oy, coord_z = js_minus pz oz\<rparr>"
  have "\<exists>turn. update_block rs sid (Val p) =
           Inr (rs, Emit (Io_to (Val rid))
                      (UpdateBlockMsg rid
                         \<lparr>change_id = block_id bd,
                          relativePosition = ?rel,
                          change_quaternion = quaternion bd\<rparr>) # turn)"
    using assms by (simp add: update_block_def)
  moreover have "exact_difference x y \<longrightarrow>
      is_finite (js_minus x y) \<and> units (js_minus x y) = units x - units y" for x y
    using js_minus_exact [of x y] by (simp add: exact_difference_def)
  ultimately show ?thesis by auto
qed

theorem update_block_relative_position_witness:
  "\<exists>turn. update_block calibrated_room ''A''
       (Val \<lparr>update_roomId = Val ''r1'',
             update_blockData = Val \<lparr>block_id = Val ''obj1'',
               position = Val \<lparr>coord_x = js_integer 4, coord_y = js_integer 6, coord_z = js_integer 8\<rparr>,
               quaternion = Undefined\<rparr>\<rparr>) =
     Inr (calibrated_room,
          Emit (Io_to (Val ''r1''))
            (UpdateBlockMsg ''r1''
               \<lparr>change_id = Val ''obj1'',
                relativePosition =
                  \<lparr>coord_x = js_integer 3, coord_y = js_integer 4, coord_z = js_integer 5\<rparr>,
                change_quaternion = Undefined\<rparr>) # turn)
   \<and> exact_difference (js_integer 4) (js_integer 1)
   \<and> exact_difference (js_integer 6) (js_integer 2)
   \<and> exact_difference (js_integer 8) (js_integer 3)
   \<and> units (js_integer 3) = units (js_integer 4) - units (js_integer 1)
   \<and> units (js_integer 4) = units (js_integer 6) - units (js_integer 2)
   \<and> units (js_integer 5) = units (js_integer 8) - units (js_integer 3)"
proof -
  let ?bd = "\<lparr>block_id = Val ''obj1'',
               position = Val \<lparr>coord_x = js_integer 4, coord_y = js_integer 6, coord_z = js_integer 8\<rparr>,
               quaternion = Undefined\<rparr>"
  have ex: "exact_difference (js_integer 4) (js_integer 1)"
    "exact_difference (js_integer 6) (js_integer 2)"
    "exact_difference (js_integer 8) (js_integer 3)"
    by (rule exact_difference_integer; simp)+
  have "rooms_get calibrated_room (update_roomId \<lparr>update_roomId = Val ''r1'', update_blockData = Val ?bd\<rparr>) =
      Some (''r1'', snd (hd calibrated_room))"
    "find (\<lambda>q. socket q = ''A'') (players (snd (hd calibrated_room))) =
      Some (hd (players (snd (hd calibrated_room))))"
    "basePosition (playerData (hd (players (snd (hd calibrated_room))))) =
      Val \<lparr>coord_x = js_integer 1, coord_y = js_integer 2, coord_z = js_integer 3\<rparr>"
    "update_blockData \<lparr>update_roomId = Val ''r1'', update_blockData = Val ?bd\<rparr> = Val ?bd"
    "position ?bd =
      Val \<lparr>coord_x = js_integer 4, coord_y = js_integer 6, coord_z = js_integer 8\<rparr>"
    by (simp_all add: calibrated_room_def)
  from update_block_relative_position [OF this]
  obtain turn rel where r: "update_block calibrated_room ''A''
       (Val \<lparr>update_roomId = Val ''r1'', update_blockData = Val ?bd\<rparr>) =
     Inr (calibrated_room,
          Emit (Io_to (Val ''r1''))
            (UpdateBlockMsg ''r1''
               \<lparr>change_id = block_id ?bd, relativePosition = rel,
                change_quaternion = quaternion ?bd\<rparr>) # turn)"
    and rel: "rel = \<lparr>coord_x = js_minus (js_integer 4) (js_integer 1),
                     coord_y = js_minus (js_integer 6) (js_integer 2),
                     coord_z = js_minus (js_integer 8) (js_integer 3)\<rparr>"
    and u: "exact_difference (js_integer 4) (js_integer 1) \<longrightarrow>
               units (coord_x rel) = units (js_integer 4) - units (js_integer 1)"
      "exact_difference (js_integer 6) (js_integer 2) \<longrightarrow>
               units (coord_y rel) = units (js_integer 6) - units (js_integer 2)"
      "exact_difference (js_integer 8) (js_integer 3) \<longrightarrow>
               units (coord_z rel) = units (js_integer 8) - units (js_integer 3)"
    by blast
  have v: "js_minus (js_integer 4) (js_integer 1) = js_integer 3"
    "js_minus (js_integer 6) (js_integer 2) = js_integer 4"
    "js_minus (js_integer 8) (js_integer 3) = js_integer 5"
    by (simp_all add: js_eval Let_def)
  from r rel v have "update_block calibrated_room ''A''
       (Val \<lparr>update_roomId = Val ''r1'', update_blockData = Val ?bd\<rparr>) =
     Inr (calibrated_room,
          Emit (Io_to (Val ''r1''))
            (UpdateBlockMsg ''r1''
               \<lparr>change_id = Val ''obj1'',
                relativePosition =
                  \<lparr>coord_x = js_integer 3, coord_y = js_integer 4, coord_z = js_integer 5\<rparr>,
                change_quaternion = Undefined\<rparr>) # turn)"
    by simp
  moreover from u ex rel v have "units (js_integer 3) = units (js_integer 4) - units (js_integer 1)"
    "units (js_integer 4) = units (js_integer 6) - units (js_integer 2)"
    "units (js_integer 5) = units (js_integer 8) - units (js_integer 3)"
    by simp_all
  ultimately show ?thesis using ex by blast
qed

text \<open>
  The claim as it is written fails: the difference is rounded. With the base position
  \<open>(1, 2, 3)\<close> and a position whose first coordinate is \<open>- 2 ^ 53\<close>, both binary64
  values, the first coordinate of the relative position is \<open>- 2 ^ 53\<close> again and not
  \<open>- 2 ^ 53 - 1\<close>.
\<close>

theorem relative_position_rounded_counterexample:
  "\<exists>turn rel. update_block calibrated_room ''A''
       (Val \<lparr>update_roomId = Val ''r1'',
             update_blockData = Val \<lparr>block_id = Val ''obj1'',
               position = Val \<lparr>coord_x = js_integer (- 9007199254740992),
                               coord_y = js_integer 6, coord_z = js_integer 8\<rparr>,
               quaternion = Undefined\<rparr>\<rparr>) =
     Inr (calibrated_room,
          Emit (Io_to (Val ''r1''))
            (UpdateBlockMsg ''r1''
               \<lparr>change_id = Val ''obj1'', relativePosition = rel,
                change_quaternion = Undefined\<rparr>) # turn)
   \<and> is_double (js_integer (- 9007199254740992)) \<and> is_double (js_integer 1)
   \<and> coord_x rel = js_integer (- 9007199254740992)
   \<and> units (coord_x rel) \<noteq> units (js_integer (- 9007199254740992)) - units (js_integer 1)"
proof -
  have v: "js_minus (js_integer (- 9007199254740992)) (js_integer 1) =
      js_integer (- 9007199254740992)"
    by (simp add: js_eval Let_def)
  have d: "is_double (js_integer (- 9007199254740992))" "is_double (js_integer 1)"
    by (rule is_double_js_integer; simp)+
  have n: "units (js_integer (- 9007199254740992)) \<noteq>
      units (js_integer (- 9007199254740992)) - units (js_integer 1)"
    by (simp add: units_js_integer)
  show ?thesis
    using v d n by (simp add: calibrated_room_def update_block_def)
qed

subsection \<open>C9: the flag \<^verbatim>\<open>ready\<close>\<close>

text \<open>
  C9, as amended. A player enters a room at \<^verbatim>\<open>createRoom\<close> or \<^verbatim>\<open>joinRoom\<close>. After a
  \<^verbatim>\<open>createRoom\<close> the room registered under the generated identifier has the sender as
  its only player, and after a \<^verbatim>\<open>joinRoom\<close> for a room that is not full the room has its
  players of before and then the sender; in both cases the flag \<^verbatim>\<open>ready\<close> of the new
  entry is the truthiness of the field \<^verbatim>\<open>ready\<close> of the player data the client sent:
  false when the client sent none. Afterwards, for every event but \<^verbatim>\<open>disconnect\<close> and a
  \<^verbatim>\<open>createRoom\<close> that generates the identifier of the room, the players of a room keep
  their places and sockets, a flag that is true stays true, and a flag becomes true only
  for an entry of the sender and by a \<^verbatim>\<open>player-ready\<close> for that room. \<^verbatim>\<open>disconnect\<close>
  leaves the players of a room as they are or removes one entry of the sender.
\<close>

theorem ready_flag_history:
  fixes rs :: "number rooms"
  shows "(handle rs sid (Ev_createRoom gen pd) = Inr (rs', out) \<longrightarrow>
            (\<exists>q. map_of rs' gen = Some \<lparr>roomId = gen, players = [q], gameState = []\<rparr>
               \<and> socket q = sid
               \<and> ready (playerData q) =
                   (case pd of Val d \<Rightarrow> truthy (client_ready d) | _ \<Rightarrow> False)))
       \<and> (handle rs sid (Ev_joinRoom (Val p)) = Inr (rs', out) \<and> join_roomId p = Val k
            \<and> map_of rs k = Some room \<and> \<not> isFull room \<longrightarrow>
            (\<exists>q. map_of rs' k = Some (room\<lparr>players := players room @ [q]\<rparr>)
               \<and> socket q = sid
               \<and> ready (playerData q) =
                   (case join_playerData p of
                      Val d \<Rightarrow> truthy (client_ready d) | _ \<Rightarrow> False)))
       \<and> (handle rs sid ev = Inr (rs', out) \<and> map_of rs k = Some room \<and> map_of rs' k = Some room'
            \<and> ev \<noteq> Ev_disconnect \<and> (\<forall>pd'. ev \<noteq> Ev_createRoom k pd') \<longrightarrow>
          length (players room) \<le> length (players room')
          \<and> (\<forall>i<length (players room).
                socket (players room' ! i) = socket (players room ! i)
                \<and> (ready (playerData (players room ! i)) \<longrightarrow>
                     ready (playerData (players room' ! i)))
                \<and> (ready (playerData (players room' ! i))
                     \<and> \<not> ready (playerData (players room ! i)) \<longrightarrow>
                     (\<exists>p. ev = Ev_player_ready (Val p) \<and> ready_roomId p = Val k)
                     \<and> socket (players room ! i) = sid)))
       \<and> (handle rs sid Ev_disconnect = Inr (rs', out) \<and> map_of rs k = Some room
            \<and> map_of rs' k = Some room' \<longrightarrow>
          players room' = players room
          \<or> (\<exists>i<length (players room). socket (players room ! i) = sid
                \<and> players room' = splice1 i (players room)))"
proof (intro conjI impI)
  assume "handle rs sid (Ev_createRoom gen pd) = Inr (rs', out)"
  then have "createRoom gen rs sid pd = Inr (rs', out)" by simp
  from createRoom_cases [OF this] obtain room1 where
    r: "rs' = map_set rs gen room1" "addPlayer (Room gen) sid pd = Inr room1" by blast
  from addPlayer_room [OF r(2)] obtain q where
    q: "room1 = (Room gen)\<lparr>players := players (Room gen) @ [q]\<rparr>" "socket q = sid"
      "ready (playerData q) = (case pd of Val d \<Rightarrow> truthy (client_ready d) | _ \<Rightarrow> False)"
    by blast
  from q(1) have "room1 = \<lparr>roomId = gen, players = [q], gameState = []\<rparr>"
    by (simp add: Room_def)
  with r(1) q(2,3)
  show "\<exists>q. map_of rs' gen = Some \<lparr>roomId = gen, players = [q], gameState = []\<rparr>
               \<and> socket q = sid
               \<and> ready (playerData q) =
                   (case pd of Val d \<Rightarrow> truthy (client_ready d) | _ \<Rightarrow> False)"
    by (auto simp: map_of_map_set)
next
  assume h: "handle rs sid (Ev_joinRoom (Val p)) = Inr (rs', out) \<and> join_roomId p = Val k
            \<and> map_of rs k = Some room \<and> \<not> isFull room"
  then have j: "joinRoom rs sid (Val p) = Inr (rs', out)"
    and g: "rooms_get rs (join_roomId p) = Some (k, room)" and f: "\<not> isFull room"
    by simp_all
  show "\<exists>q. map_of rs' k = Some (room\<lparr>players := players room @ [q]\<rparr>)
               \<and> socket q = sid
               \<and> ready (playerData q) =
                   (case join_playerData p of
                      Val d \<Rightarrow> truthy (client_ready d) | _ \<Rightarrow> False)"
  proof (cases "addPlayer room sid (join_playerData p)")
    case (Inl e)
    with j g f show ?thesis by (simp add: joinRoom_def Let_def addPlayer_default)
  next
    case (Inr room1)
    with j g f have "rs' = map_set rs k room1"
      by (simp add: joinRoom_def Let_def addPlayer_default)
    with addPlayer_room [OF Inr] show ?thesis by (auto simp: map_of_map_set)
  qed
next
  assume h: "handle rs sid ev = Inr (rs', out) \<and> map_of rs k = Some room \<and> map_of rs' k = Some room'
            \<and> ev \<noteq> Ev_disconnect \<and> (\<forall>pd'. ev \<noteq> Ev_createRoom k pd')"
  then have "flags_kept sid (\<exists>p. ev = Ev_player_ready (Val p) \<and> ready_roomId p = Val k)
           (players room) (players room')"
    using handle_flags [of rs sid ev rs' out k room room'] by blast
  then show "length (players room) \<le> length (players room')"
    and "\<forall>i<length (players room).
                socket (players room' ! i) = socket (players room ! i)
                \<and> (ready (playerData (players room ! i)) \<longrightarrow>
                     ready (playerData (players room' ! i)))
                \<and> (ready (playerData (players room' ! i))
                     \<and> \<not> ready (playerData (players room ! i)) \<longrightarrow>
                     (\<exists>p. ev = Ev_player_ready (Val p) \<and> ready_roomId p = Val k)
                     \<and> socket (players room ! i) = sid)"
    unfolding flags_kept_def by blast+
next
  assume "handle rs sid Ev_disconnect = Inr (rs', out) \<and> map_of rs k = Some room
            \<and> map_of rs' k = Some room'"
  then show "players room' = players room
          \<or> (\<exists>i<length (players room). socket (players room ! i) = sid
                \<and> players room' = splice1 i (players room))"
    using disconnect_room [of rs sid rs' out k room room'] by simp
qed

text \<open>
  The witness: \<^verbatim>\<open>A\<close> creates \<^verbatim>\<open>r1\<close> without player data and enters not ready; \<^verbatim>\<open>B\<close> joins
  with player data whose \<^verbatim>\<open>ready\<close> is true and enters ready; the \<^verbatim>\<open>player-ready\<close> of \<^verbatim>\<open>A\<close>
  makes its flag true; the \<^verbatim>\<open>disconnect\<close> of \<^verbatim>\<open>A\<close> removes its entry.
\<close>

theorem ready_flag_history_witness:
  "(\<exists>q. handle [] ''A'' (Ev_createRoom ''r1'' Undefined) =
           Inr (fresh_room, [Join ''r1'', Emit Socket_emit (RoomCreated ''r1'')])
        \<and> map_of fresh_room ''r1'' = Some \<lparr>roomId = ''r1'', players = [q], gameState = []\<rparr>
        \<and> socket q = ''A'' \<and> \<not> ready (playerData q))
   \<and> (\<exists>rs' out q.
         handle fresh_room ''B''
           (Ev_joinRoom (Val \<lparr>join_roomId = Val ''r1'',
                              join_playerData = Val (empty_object\<lparr>client_ready := Val True\<rparr>)\<rparr>)) =
           Inr (rs', out)
         \<and> map_of rs' ''r1'' =
             Some ((snd (hd fresh_room))\<lparr>players := players (snd (hd fresh_room)) @ [q]\<rparr>)
         \<and> socket q = ''B'' \<and> ready (playerData q))
   \<and> (\<exists>rs' out room'.
         handle fresh_room ''A'' (Ev_player_ready (Val \<lparr>ready_roomId = Val ''r1''\<rparr>)) =
           Inr (rs', out)
         \<and> map_of rs' ''r1'' = Some room'
         \<and> length (players room') = 1
         \<and> socket (players room' ! 0) = ''A'' \<and> ready (playerData (players room' ! 0)))
   \<and> (\<exists>rs' out room'.
         handle two_players ''A'' Ev_disconnect = Inr (rs', out)
         \<and> map_of rs' ''r1'' = Some room'
         \<and> players room' = splice1 0 (players (snd (hd two_players))))"
proof -
  let ?room2 = "\<lparr>roomId = ''r1'',
      players = [\<lparr>socket = ''A'',
                  playerData = \<lparr>name = ''A'', ready = True,
                                basePosition = Undefined :: number vec3 js, display = []\<rparr>\<rparr>],
      gameState = []\<rparr>"
  let ?out2 = "[Emit (Io_to (Val ''r1'')) (StartGame []),
                Emit (Io_to (Val ''r1'')) (TurnUpdate ''A'' ''r1'')] :: number effect list"
  let ?room3 = "\<lparr>roomId = ''r1'',
      players = [\<lparr>socket = ''B'',
                  playerData = \<lparr>name = ''B'', ready = True,
                    basePosition = Val \<lparr>coord_x = js_integer 1, coord_y = js_integer 2, coord_z = js_integer 3\<rparr>,
                    display = []\<rparr>\<rparr>],
      gameState = []\<rparr>"
  let ?out3 = "[Emit (Socket_to ''r1'') (PlayerDisconnected ''A'')] :: number effect list"
  let ?join = "\<lparr>join_roomId = Val ''r1'',
      join_playerData = Val (empty_object\<lparr>client_ready := Val True\<rparr>)\<rparr> :: number joinPayload"
  have a: "handle [] ''A'' (Ev_createRoom ''r1'' Undefined) =
      Inr (fresh_room, [Join ''r1'', Emit Socket_emit (RoomCreated ''r1'')])"
    by (simp add: createRoom_def Room_def addPlayer_def empty_object_def fresh_room_def Let_def)
  from ready_flag_history [THEN conjunct1, THEN mp, OF a]
  have a': "\<exists>q. map_of fresh_room ''r1'' = Some \<lparr>roomId = ''r1'', players = [q], gameState = []\<rparr>
        \<and> socket q = ''A'' \<and> ready (playerData q) = False"
    by simp
  have "\<exists>rs' out. handle fresh_room ''B'' (Ev_joinRoom (Val ?join)) = Inr (rs', out)"
    by (simp add: joinRoom_def Let_def fresh_room_def isFull_def addPlayer_def)
  then obtain rs1 out1 where j: "handle fresh_room ''B'' (Ev_joinRoom (Val ?join)) = Inr (rs1, out1)"
    by blast
  have j0: "join_roomId ?join = Val ''r1''" by simp
  have j1: "map_of fresh_room ''r1'' = Some (snd (hd fresh_room))" by (simp add: fresh_room_def)
  have j2: "\<not> isFull (snd (hd fresh_room))" by (simp add: fresh_room_def isFull_def)
  from ready_flag_history [THEN conjunct2, THEN conjunct1, THEN mp,
      OF conjI [OF j conjI [OF j0 conjI [OF j1 j2]]]]
  have j': "\<exists>q. map_of rs1 ''r1'' =
             Some ((snd (hd fresh_room))\<lparr>players := players (snd (hd fresh_room)) @ [q]\<rparr>)
         \<and> socket q = ''B'' \<and> ready (playerData q) = True"
    by (simp add: empty_object_def)
  have b: "handle fresh_room ''A'' (Ev_player_ready (Val \<lparr>ready_roomId = Val ''r1''\<rparr>)) =
      Inr ([(''r1'', ?room2)], ?out2)"
    by (simp add: fresh_room_def player_ready_def Let_def getState_def)
  have b1: "map_of [(''r1'', ?room2)] ''r1'' = Some ?room2" by simp
  have b2: "Ev_player_ready (Val \<lparr>ready_roomId = Val ''r1''\<rparr>) \<noteq> (Ev_disconnect :: number event)
      \<and> (\<forall>pd'. Ev_player_ready (Val \<lparr>ready_roomId = Val ''r1''\<rparr>)
               \<noteq> (Ev_createRoom ''r1'' pd' :: number event))"
    by simp
  from ready_flag_history [THEN conjunct2, THEN conjunct2, THEN conjunct1, THEN mp,
      OF conjI [OF b conjI [OF j1 conjI [OF b1 b2]]]]
  have b': "\<forall>i<length (players (snd (hd fresh_room))).
        socket (players ?room2 ! i) = socket (players (snd (hd fresh_room)) ! i)
        \<and> (ready (playerData (players (snd (hd fresh_room)) ! i)) \<longrightarrow>
             ready (playerData (players ?room2 ! i)))
        \<and> (ready (playerData (players ?room2 ! i))
             \<and> \<not> ready (playerData (players (snd (hd fresh_room)) ! i)) \<longrightarrow>
             (\<exists>p. Ev_player_ready (Val \<lparr>ready_roomId = Val ''r1''\<rparr>)
                     = (Ev_player_ready (Val p) :: number event) \<and> ready_roomId p = Val ''r1'')
             \<and> socket (players (snd (hd fresh_room)) ! i) = ''A'')"
    by (rule conjunct2)
  then have b'': "socket (players ?room2 ! 0) = ''A''"
    by (simp add: fresh_room_def)
  have c: "handle two_players ''A'' Ev_disconnect = Inr ([(''r1'', ?room3)], ?out3)"
    by (simp add: two_players_def disconnect_def splice1_def)
  have c0: "map_of two_players ''r1'' = Some (snd (hd two_players))"
    by (simp add: two_players_def)
  have c1: "map_of [(''r1'', ?room3)] ''r1'' = Some ?room3" by simp
  from ready_flag_history [THEN conjunct2, THEN conjunct2, THEN conjunct2, THEN mp,
      OF conjI [OF c conjI [OF c0 c1]]]
  have c': "players ?room3 = players (snd (hd two_players))
      \<or> (\<exists>i<length (players (snd (hd two_players))).
            socket (players (snd (hd two_players)) ! i) = ''A''
            \<and> players ?room3 = splice1 i (players (snd (hd two_players))))" .
  then have c'': "players ?room3 = splice1 0 (players (snd (hd two_players)))"
    by (auto simp: two_players_def splice1_def less_Suc_eq numeral_2_eq_2)
  from a a' have 1: "\<exists>q. handle [] ''A'' (Ev_createRoom ''r1'' Undefined) =
           Inr (fresh_room, [Join ''r1'', Emit Socket_emit (RoomCreated ''r1'')])
        \<and> map_of fresh_room ''r1'' = Some \<lparr>roomId = ''r1'', players = [q], gameState = []\<rparr>
        \<and> socket q = ''A'' \<and> \<not> ready (playerData q)"
    by auto
  from j j' have 2: "\<exists>rs' out q.
         handle fresh_room ''B'' (Ev_joinRoom (Val ?join)) = Inr (rs', out)
         \<and> map_of rs' ''r1'' =
             Some ((snd (hd fresh_room))\<lparr>players := players (snd (hd fresh_room)) @ [q]\<rparr>)
         \<and> socket q = ''B'' \<and> ready (playerData q)"
    by auto
  from b b'' have 3: "\<exists>rs' out room'.
         handle fresh_room ''A'' (Ev_player_ready (Val \<lparr>ready_roomId = Val ''r1''\<rparr>)) =
           Inr (rs', out)
         \<and> map_of rs' ''r1'' = Some room'
         \<and> length (players room') = 1
         \<and> socket (players room' ! 0) = ''A'' \<and> ready (playerData (players room' ! 0))"
    by (intro exI [of _ "[(''r1'', ?room2)]"] exI [of _ ?out2] exI [of _ ?room2]) simp
  from c c'' have 4: "\<exists>rs' out room'.
         handle two_players ''A'' Ev_disconnect = Inr (rs', out)
         \<and> map_of rs' ''r1'' = Some room'
         \<and> players room' = splice1 0 (players (snd (hd two_players)))"
    by (intro exI [of _ "[(''r1'', ?room3)]"] exI [of _ ?out3] exI [of _ ?room3]) simp
  from 1 2 3 4 show ?thesis by (intro conjI)
qed

text \<open>
  The claim as it is written fails: a client that creates a room with player data whose
  \<^verbatim>\<open>ready\<close> is true is ready from its entry, without a \<^verbatim>\<open>player-ready\<close>.
\<close>

theorem ready_at_entry_counterexample:
  "\<exists>room. createRoom ''r1'' ([] :: number rooms) ''A'' (Val (empty_object\<lparr>client_ready := Val True\<rparr>)) =
       Inr ([(''r1'', room)], [Join ''r1'', Emit Socket_emit (RoomCreated ''r1'')])
     \<and> map (\<lambda>q. ready (playerData q)) (players room) = [True]"
  by (simp add: createRoom_def Let_def addPlayer_def Room_def empty_object_def)

subsection \<open>C10: joining a room twice\<close>

text \<open>
  C10. \<^verbatim>\<open>joinRoom\<close> does not look for the socket among the players. When the only player of
  a room sends \<^verbatim>\<open>joinRoom\<close> for that room, the join succeeds (the sender gets
  \<^verbatim>\<open>joinedRoom\<close>); in the table after the join the room has two players with the same
  socket and \<^verbatim>\<open>isFull\<close> holds of it, and every other room is as it was.
\<close>

theorem joinRoom_same_socket_twice:
  assumes "map_of rs rid = Some room"
    and "players room = [p]"
    and "socket p = sid"
    and "pd \<noteq> Null"
  shows "\<exists>rs' room' q out.
           joinRoom rs sid (Val \<lparr>join_roomId = Val rid, join_playerData = pd\<rparr>) =
             Inr (rs', Join rid # Emit Socket_emit (JoinedRoom rid (getState room')) # out)
           \<and> map_of rs' rid = Some room'
           \<and> (\<forall>k. k \<noteq> rid \<longrightarrow> map_of rs' k = map_of rs k)
           \<and> room' = room\<lparr>players := [p, q]\<rparr>
           \<and> socket q = socket p \<and> isFull room'"
proof -
  obtain q :: "'a player" where q: "addPlayer room sid pd = Inr (room\<lparr>players := players room @ [q]\<rparr>)"
    and sq: "socket q = sid"
    using addPlayer_Inr [OF assms(4), of room sid] by simp
  let ?room' = "room\<lparr>players := players room @ [q]\<rparr>"
  have "joinRoom rs sid (Val \<lparr>join_roomId = Val rid, join_playerData = pd\<rparr>) =
          Inr (map_set rs rid ?room',
               Join rid # Emit Socket_emit (JoinedRoom rid (getState ?room')) #
               [Emit (Socket_to rid)
                  (PlayerJoined sid
                     (case default_param pd of
                        Val d \<Rightarrow> d\<lparr>client_name := Val sid\<rparr>
                      | _ \<Rightarrow> empty_object\<lparr>client_name := Val sid\<rparr>))])"
    using assms(1,2) q by (simp add: joinRoom_def isFull_def addPlayer_default)
  moreover have "map_of (map_set rs rid ?room') rid = Some ?room'"
    "\<forall>k. k \<noteq> rid \<longrightarrow> map_of (map_set rs rid ?room') k = map_of rs k"
    by (simp_all add: map_of_map_set)
  moreover have "?room' = room\<lparr>players := [p, q]\<rparr>" "socket q = socket p" "isFull ?room'"
    using assms(2,3) sq by (simp_all add: isFull_def)
  ultimately show ?thesis by blast
qed

theorem joinRoom_same_socket_twice_witness:
  "\<exists>rs' room' out.
     joinRoom calibrated_room ''A'' (Val \<lparr>join_roomId = Val ''r1'', join_playerData = Undefined\<rparr>) =
       Inr (rs', Join ''r1'' # Emit Socket_emit (JoinedRoom ''r1'' (getState room')) # out)
     \<and> map_of rs' ''r1'' = Some room'
     \<and> map socket (players room') = [''A'', ''A''] \<and> isFull room'"
proof -
  have "\<exists>rs' room' q out.
     joinRoom calibrated_room ''A'' (Val \<lparr>join_roomId = Val ''r1'', join_playerData = Undefined\<rparr>) =
       Inr (rs', Join ''r1'' # Emit Socket_emit (JoinedRoom ''r1'' (getState room')) # out)
     \<and> map_of rs' ''r1'' = Some room'
     \<and> (\<forall>k. k \<noteq> ''r1'' \<longrightarrow> map_of rs' k = map_of calibrated_room k)
     \<and> room' = (snd (hd calibrated_room))\<lparr>players := [hd (players (snd (hd calibrated_room))), q]\<rparr>
     \<and> socket q = socket (hd (players (snd (hd calibrated_room)))) \<and> isFull room'"
    by (rule joinRoom_same_socket_twice [where room = "snd (hd calibrated_room)"])
       (simp_all add: calibrated_room_def)
  then show ?thesis
    by (auto simp: calibrated_room_def)
qed

end
